theory Spec2Isabelle
  imports Complex_Main "HOL-Library.Word"
begin

section \<open>Pixel engine (src/utils/imageUtils.ts)\<close>

subsection \<open>Numbers\<close>

text \<open>
  A JavaScript number is a double. An operation whose exact result is \<open>x\<close> returns
  \<open>rnd x\<close>, the double that \<open>x\<close> rounds to; the functions below take the rounding
  \<open>rnd\<close> as their first argument and apply it wherever the source computes a quotient, a
  product of numbers that need not be whole, or a square root. Differences, squares and
  sums of small whole numbers are exact.

  Of the rounding the proofs use two facts, both true of IEEE 754 binary64 with rounding
  to nearest: between \<open>2\<^sup>-\<^sup>6\<^sup>4\<close> and \<open>2\<^sup>6\<^sup>4\<close> the relative error is at most
  \<open>2\<^sup>-\<^sup>5\<^sup>3\<close>, and a whole number up to \<open>2\<^sup>5\<^sup>3\<close> is a double.
\<close>

definition doubleRounding :: "(real \<Rightarrow> real) \<Rightarrow> bool" where
  "doubleRounding rnd =
     ((\<forall>x. 1 / 2 ^ 64 \<le> x \<and> x \<le> 2 ^ 64 \<longrightarrow>
            x * (1 - 1 / 2 ^ 53) \<le> rnd x \<and> rnd x \<le> x * (1 + 1 / 2 ^ 53))
      \<and> (\<forall>n::nat. n \<le> 2 ^ 53 \<longrightarrow> rnd (real n) = real n))"

subsection \<open>resizeImage: the size of the canvas\<close>

text \<open>
  \<^verbatim>\<open>img.width\<close> and \<^verbatim>\<open>img.height\<close> are non-negative integers; \<^verbatim>\<open>maxDimension\<close> is
  taken as a non-negative integer (the application passes 1024). The local variables
  \<^verbatim>\<open>width\<close> and \<^verbatim>\<open>height\<close> are numbers: \<^verbatim>\<open>height *= maxDimension / width\<close> rounds
  the quotient and then the product.
\<close>

definition scaledSize :: "(real \<Rightarrow> real) \<Rightarrow> nat \<Rightarrow> nat \<Rightarrow> nat \<Rightarrow> real \<times> real" where
  "scaledSize rnd imgWidth imgHeight maxDimension =
     (if imgWidth > imgHeight then
        (if imgWidth > maxDimension
         then (real maxDimension,
               rnd (real imgHeight * rnd (real maxDimension / real imgWidth)))
         else (real imgWidth, real imgHeight))
      else
        (if imgHeight > maxDimension
         then (rnd (real imgWidth * rnd (real maxDimension / real imgHeight)),
               real maxDimension)
         else (real imgWidth, real imgHeight)))"

text \<open>
  Assigning a number to \<^verbatim>\<open>canvas.width\<close> or \<^verbatim>\<open>canvas.height\<close> converts it to an
  unsigned integer by dropping the fraction.
\<close>

definition canvasSize :: "real \<times> real \<Rightarrow> nat \<times> nat" where
  "canvasSize wh = (nat \<lfloor>fst wh\<rfloor>, nat \<lfloor>snd wh\<rfloor>)"

definition resizedSize :: "(real \<Rightarrow> real) \<Rightarrow> nat \<Rightarrow> nat \<Rightarrow> nat \<Rightarrow> nat \<times> nat" where
  "resizedSize rnd imgWidth imgHeight maxDimension =
     canvasSize (scaledSize rnd imgWidth imgHeight maxDimension)"

text \<open>
  The factor by which both sides are meant to be scaled: 1 when the longer side is within
  the bound, and the bound divided by the longer side otherwise.
\<close>

definition scaleFactor :: "nat \<Rightarrow> nat \<Rightarrow> nat \<Rightarrow> real" where
  "scaleFactor imgWidth imgHeight maxDimension =
     (if max imgWidth imgHeight \<le> maxDimension then 1
      else real maxDimension / real (max imgWidth imgHeight))"

subsection \<open>removeBackground: the pass over the pixels\<close>

text \<open>
  \<^verbatim>\<open>ImageData\<close>: \<^verbatim>\<open>data\<close> is a \<^verbatim>\<open>Uint8ClampedArray\<close> holding R, G, B, A of each
  pixel in turn.
\<close>

record ImageData =
  width :: nat
  height :: nat
  data :: "8 word list"

text \<open>Reading an index of a typed array gives \<^verbatim>\<open>undefined\<close> out of range.\<close>

definition item :: "'a list \<Rightarrow> nat \<Rightarrow> 'a option" where
  "item xs i = (if i < length xs then Some (xs ! i) else None)"

definition targetR :: real where "targetR = 255"
definition targetG :: real where "targetG = 255"
definition targetB :: real where "targetB = 255"

text \<open>
  The distance from white; \<open>None\<close> is \<^verbatim>\<open>NaN\<close>, the result of arithmetic on
  \<^verbatim>\<open>undefined\<close>. \<^verbatim>\<open>Math.sqrt\<close> returns the square root rounded.
\<close>

definition diff ::
  "(real \<Rightarrow> real) \<Rightarrow> 8 word option \<Rightarrow> 8 word option \<Rightarrow> 8 word option \<Rightarrow> real option" where
  "diff rnd r g b =
     (case r of None \<Rightarrow> None | Some r' \<Rightarrow>
       (case g of None \<Rightarrow> None | Some g' \<Rightarrow>
         (case b of None \<Rightarrow> None | Some b' \<Rightarrow>
            Some (rnd (sqrt ((real (unat r') - targetR)\<^sup>2
                           + (real (unat g') - targetG)\<^sup>2
                           + (real (unat b') - targetB)\<^sup>2))))))"

text \<open>\<^verbatim>\<open>diff < tolerance\<close>: a comparison with \<^verbatim>\<open>NaN\<close> is false.\<close>

definition below :: "real option \<Rightarrow> real \<Rightarrow> bool" where
  "below d tolerance = (case d of None \<Rightarrow> False | Some x \<Rightarrow> x < tolerance)"

text \<open>The test of the loop body for the pixel that starts at index \<open>i\<close>.\<close>

definition nearTarget :: "(real \<Rightarrow> real) \<Rightarrow> real \<Rightarrow> 8 word list \<Rightarrow> nat \<Rightarrow> bool" where
  "nearTarget rnd tolerance d i =
     below (diff rnd (item d i) (item d (i + 1)) (item d (i + 2))) tolerance"

text \<open>
  The loop \<^verbatim>\<open>for (let i = 0; i < data.length; i += 4)\<close>, from index \<open>i\<close> on. A write
  beyond the end of a typed array is ignored, as \<open>xs[i := v]\<close> is.
\<close>

function removeBackgroundLoop ::
  "(real \<Rightarrow> real) \<Rightarrow> real \<Rightarrow> nat \<Rightarrow> 8 word list \<Rightarrow> 8 word list" where
  "removeBackgroundLoop rnd tolerance i d =
     (if i < length d then
        removeBackgroundLoop rnd tolerance (i + 4)
          (if nearTarget rnd tolerance d i then d[i + 3 := 0] else d)
      else d)"
  by pat_completeness auto
termination
  by (relation "measure (\<lambda>(rnd, tolerance, i, d). length d - i)") auto

definition removeBackgroundPixels :: "(real \<Rightarrow> real) \<Rightarrow> real \<Rightarrow> ImageData \<Rightarrow> ImageData" where
  "removeBackgroundPixels rnd tolerance imageData =
     imageData\<lparr>data := removeBackgroundLoop rnd tolerance 0 (data imageData)\<rparr>"


section \<open>Strings, promises and exceptions\<close>

text \<open>
  Data URLs, base64 payloads, MIME types and messages are \<open>string\<close>s. The text the user
  types is a sequence of UTF-16 code units, so that every white-space character of
  JavaScript can occur in it.
\<close>

type_synonym jsstring = "16 word list"

definition js :: "string \<Rightarrow> jsstring" where
  "js s = map of_char s"

text \<open>\<^verbatim>\<open>WhiteSpace\<close> and \<^verbatim>\<open>LineTerminator\<close> of ECMAScript, which \<^verbatim>\<open>trim\<close> strips.\<close>

definition isWhiteSpace :: "16 word \<Rightarrow> bool" where
  "isWhiteSpace c =
     (c \<in> set [0x9, 0xA, 0xB, 0xC, 0xD, 0x20, 0xA0, 0x1680,
                0x2000, 0x2001, 0x2002, 0x2003, 0x2004, 0x2005, 0x2006, 0x2007,
                0x2008, 0x2009, 0x200A, 0x2028, 0x2029, 0x202F, 0x205F, 0x3000, 0xFEFF])"

definition trim :: "jsstring \<Rightarrow> jsstring" where
  "trim s = rev (dropWhile isWhiteSpace (rev (dropWhile isWhiteSpace s)))"

text \<open>
  \<^verbatim>\<open>s.split(c)\<close> for a one-character separator: always at least one piece.
  \<open>splitFrom\<close> reads the rest of the string, holding the piece it is in, reversed.
\<close>

fun splitFrom :: "'a \<Rightarrow> 'a list \<Rightarrow> 'a list \<Rightarrow> 'a list list" where
  "splitFrom c piece [] = [rev piece]"
| "splitFrom c piece (x # xs) =
     (if x = c then rev piece # splitFrom c [] xs else splitFrom c (x # piece) xs)"

definition split :: "'a \<Rightarrow> 'a list \<Rightarrow> 'a list list" where
  "split c s = splitFrom c [] s"

text \<open>
  A value that may be \<^verbatim>\<open>null\<close> or \<^verbatim>\<open>undefined\<close> is an option. In a condition the
  empty string is false as well; in a template literal \<^verbatim>\<open>undefined\<close> prints as a word.
\<close>

definition truthy :: "'a list option \<Rightarrow> bool" where
  "truthy v = (case v of None \<Rightarrow> False | Some x \<Rightarrow> x \<noteq> [])"

definition tmpl :: "string option \<Rightarrow> string" where
  "tmpl v = (case v of None \<Rightarrow> ''undefined'' | Some x \<Rightarrow> x)"

datatype Exn =
    JsError string
  | TypeError
  | ErrorEvent
  | External string

text \<open>
  An awaited promise resolves, rejects, or never settles. \<open>JsError\<close> is
  \<^verbatim>\<open>new Error(message)\<close>, \<open>ErrorEvent\<close> the event \<^verbatim>\<open>img.onerror\<close> rejects with,
  \<open>External\<close> a rejection that comes from a collaborator.
\<close>

datatype 'a promise = Resolved 'a | Rejected Exn | Pending

section \<open>Generative client (src/services/geminiService.ts)\<close>

record GenRequest =
  reqModel :: string
  reqData :: "string option"
  reqMimeType :: string
  reqText :: jsstring
  reqImageSize :: "string option"

datatype Part = InlineData "string option" | TextPart jsstring

text \<open>A candidate: \<^verbatim>\<open>content.parts\<close>, or nothing where reading it throws.\<close>

datatype Candidate = Candidate "Part list option"

record Response =
  candidates :: "Candidate list option"

definition EMBROIDERY_PROMPT :: string where
  "EMBROIDERY_PROMPT =
     ''\<newline>Transform this image into a high-quality, realistic embroidery patch. \<newline>'' @
     ''The design should simulate stitched thread textures with high detail. \<newline>'' @
     ''Use vibrant, thread-like colors. \<newline>'' @
     ''CRITICAL: The background MUST be a solid, flat, pure white color (#FFFFFF) '' @
     ''completely distinct from the subject to allow for easy background removal.\<newline>'' @
     ''Ensure the edges of the patch are clean and simulate a stitched border.\<newline>''"

fun firstImage :: "Part list \<Rightarrow> Exn + string" where
  "firstImage [] =
     Inl (JsError ''No image data found in response. The model may have returned text only.'')"
| "firstImage (InlineData (Some d) # ps) = (if d \<noteq> [] then Inr d else firstImage ps)"
| "firstImage (p # ps) = firstImage ps"

definition extractImageFromResponse :: "Response \<Rightarrow> Exn + string" where
  "extractImageFromResponse response =
     (case candidates response of
        None \<Rightarrow> Inl (JsError ''No candidates returned from Gemini API'')
      | Some [] \<Rightarrow> Inl (JsError ''No candidates returned from Gemini API'')
      | Some (Candidate None # cs) \<Rightarrow> Inl TypeError
      | Some (Candidate (Some ps) # cs) \<Rightarrow> firstImage ps)"

text \<open>
  The three calls differ in the request only: each awaits \<^verbatim>\<open>generateContent\<close>, extracts
  the image, and rethrows whatever was thrown.
\<close>

definition callModel :: "(GenRequest \<Rightarrow> Response promise) \<Rightarrow> GenRequest \<Rightarrow> string promise" where
  "callModel generateContent request =
     (case generateContent request of
        Pending \<Rightarrow> Pending
      | Rejected e \<Rightarrow> Rejected e
      | Resolved response \<Rightarrow>
          (case extractImageFromResponse response of
             Inl e \<Rightarrow> Rejected e
           | Inr d \<Rightarrow> Resolved d))"

definition embroideryRequest :: "string option \<Rightarrow> string \<Rightarrow> GenRequest" where
  "embroideryRequest base64Image mime =
     \<lparr>reqModel = ''gemini-2.5-flash-image'', reqData = base64Image, reqMimeType = mime,
      reqText = js EMBROIDERY_PROMPT, reqImageSize = None\<rparr>"

definition editRequest :: "string option \<Rightarrow> string \<Rightarrow> jsstring \<Rightarrow> GenRequest" where
  "editRequest base64Image mime prompt =
     \<lparr>reqModel = ''gemini-2.5-flash-image'', reqData = base64Image, reqMimeType = mime,
      reqText = js ''Edit this image based on the following instruction: '' @ prompt @
        js (''. Maintain the high quality. If the user asks for embroidery, '' @
            ''use a realistic stitched texture style.''),
      reqImageSize = None\<rparr>"

definition upscaleRequest :: "string option \<Rightarrow> string \<Rightarrow> GenRequest" where
  "upscaleRequest base64Image mime =
     \<lparr>reqModel = ''gemini-3-pro-image-preview'', reqData = base64Image, reqMimeType = mime,
      reqText = js (''Upscale this image to 4K resolution. Enhance details, sharpness, '' @
        ''and texture clarity while strictly preserving the original content and style.''),
      reqImageSize = Some ''4K''\<rparr>"

section \<open>The browser and the collaborators\<close>

type_synonym File = "8 word list"

record AIStudio =
  hasSelectedApiKey :: "bool promise option"
  openSelectKey :: "unit promise option"

text \<open>
  What the handlers cannot compute themselves. \<open>roundDouble\<close> is the rounding of the
  arithmetic of numbers. \<open>readAsDataURL\<close> is \<open>None\<close> when the
  reader fails; \<open>loadImage\<close> gives the pixels of the image behind a URL, at its natural
  size, or \<open>None\<close> when \<^verbatim>\<open>img.onerror\<close> fires; \<open>getContext\<close> tells whether the canvas
  hands out a 2D context; \<open>jpegDataURL img w h\<close> is \<^verbatim>\<open>toDataURL('image/jpeg', 0.9)\<close> of
  the canvas of size \<open>w\<close> by \<open>h\<close> on which \<open>img\<close> was drawn, \<open>pngDataURL\<close> is
  \<^verbatim>\<open>toDataURL('image/png')\<close> of the canvas that holds the given pixels; \<open>aistudio\<close> is
  \<^verbatim>\<open>window.aistudio\<close>, each of its methods present or not.
\<close>

record Env =
  roundDouble :: "real \<Rightarrow> real"
  readAsDataURL :: "File \<Rightarrow> string option"
  loadImage :: "string \<Rightarrow> ImageData option"
  getContext :: bool
  jpegDataURL :: "ImageData \<Rightarrow> nat \<Rightarrow> nat \<Rightarrow> string"
  pngDataURL :: "ImageData \<Rightarrow> string"
  aistudio :: "AIStudio option"
  generateContent :: "GenRequest \<Rightarrow> Response promise"

definition generateEmbroidery :: "Env \<Rightarrow> string option \<Rightarrow> string \<Rightarrow> string promise" where
  "generateEmbroidery env base64Image mime =
     callModel (generateContent env) (embroideryRequest base64Image mime)"

definition editImage :: "Env \<Rightarrow> string option \<Rightarrow> string \<Rightarrow> jsstring \<Rightarrow> string promise" where
  "editImage env base64Image mime prompt =
     callModel (generateContent env) (editRequest base64Image mime prompt)"

definition upscaleImage :: "Env \<Rightarrow> string option \<Rightarrow> string \<Rightarrow> string promise" where
  "upscaleImage env base64Image mime =
     callModel (generateContent env) (upscaleRequest base64Image mime)"

text \<open>
  \<^verbatim>\<open>resizeImage\<close>: no handler is installed for a failing reader, so the promise then
  never settles.
\<close>

definition resizeImage :: "Env \<Rightarrow> File \<Rightarrow> nat \<Rightarrow> (string option \<times> string) promise" where
  "resizeImage env file maxDimension =
     (case readAsDataURL env file of
        None \<Rightarrow> Pending
      | Some url \<Rightarrow>
          (case loadImage env url of
             None \<Rightarrow> Rejected ErrorEvent
           | Some img \<Rightarrow>
               (let wh = resizedSize (roundDouble env) (width img) (height img) maxDimension in
                if \<not> getContext env then Rejected (JsError ''Could not get canvas context'')
                else
                  (let mime = ''image/jpeg'';
                       dataUrl = jpegDataURL env img (fst wh) (snd wh);
                       base64 = item (split CHR '','' dataUrl) 1
                   in Resolved (base64, mime)))))"

definition removeBackground :: "Env \<Rightarrow> string \<Rightarrow> real \<Rightarrow> string promise" where
  "removeBackground env dataUrl tolerance =
     (case loadImage env dataUrl of
        None \<Rightarrow> Rejected ErrorEvent
      | Some imageData \<Rightarrow>
          if \<not> getContext env then Rejected (JsError ''Could not get canvas context'')
          else Resolved (pngDataURL env
                 (removeBackgroundPixels (roundDouble env) tolerance imageData)))"


section \<open>Edit session (the App component)\<close>

datatype ProcessingStatus =
  Idle | Uploading | Processing | Removing_background | Upscaling | Complete | Error

text \<open>
  The state variables of the component. \<open>requests\<close> is not one of them: it records, in
  order, the requests handed to \<^verbatim>\<open>generateContent\<close>, so that a call of the generative
  client is an effect one can state.
\<close>

record AppState =
  status :: ProcessingStatus
  originalImage :: "string option"
  currentImage :: "string option"
  previewImage :: "string option"
  editPrompt :: jsstring
  mimeType :: string
  error :: "string option"
  history :: "string list"
  requests :: "GenRequest list"

definition initialState :: AppState where
  "initialState =
     \<lparr>status = Idle, originalImage = None, currentImage = None, previewImage = None,
      editPrompt = [], mimeType = ''image/jpeg'', error = None, history = [],
      requests = []\<rparr>"

text \<open>
  How a handler ends: it returns, an exception leaves it uncaught, or it waits for ever
  on a promise. Each carries the state the component is left in.
\<close>

datatype Outcome = Returned AppState | Threw Exn AppState | Hung AppState

fun final :: "Outcome \<Rightarrow> AppState" where
  "final (Returned s) = s"
| "final (Threw e s) = s"
| "final (Hung s) = s"

definition handleImageSelect :: "Env \<Rightarrow> File \<Rightarrow> AppState \<Rightarrow> Outcome" where
  "handleImageSelect env file s =
     (let s1 = s\<lparr>status := Uploading, error := None\<rparr> in
      case resizeImage env file 1024 of
        Pending \<Rightarrow> Hung s1
      | Rejected e \<Rightarrow>
          Returned (s1\<lparr>error := Some ''Failed to process image. Please try another file.'',
                       status := Error\<rparr>)
      | Resolved (base64, resizedMime) \<Rightarrow>
          (let dataUrl = ''data:'' @ resizedMime @ '';base64,'' @ tmpl base64 in
           Returned (s1\<lparr>originalImage := base64, previewImage := Some dataUrl,
                         currentImage := Some dataUrl, mimeType := resizedMime,
                         history := [dataUrl], status := Idle\<rparr>)))"

definition updateHistory :: "string \<Rightarrow> AppState \<Rightarrow> AppState" where
  "updateHistory newImageUrl s =
     s\<lparr>history := history s @ [newImageUrl], currentImage := Some newImageUrl\<rparr>"

text \<open>\<^verbatim>\<open>currentImage.split(',')[1]\<close>\<close>

definition base64Of :: "string \<Rightarrow> string option" where
  "base64Of url = item (split CHR '','' url) 1"

definition handleEmbroideryTransform :: "Env \<Rightarrow> AppState \<Rightarrow> Outcome" where
  "handleEmbroideryTransform env s =
     (case currentImage s of
        None \<Rightarrow> Returned s
      | Some cur \<Rightarrow>
          if cur = [] \<or> \<not> truthy (originalImage s) then Returned s
          else
            (let s1 = s\<lparr>status := Processing, error := None\<rparr>;
                 base64Input = base64Of cur;
                 s2 = s1\<lparr>requests := requests s1 @ [embroideryRequest base64Input (mimeType s)]\<rparr>
             in case generateEmbroidery env base64Input (mimeType s) of
                  Pending \<Rightarrow> Hung s2
                | Rejected e \<Rightarrow>
                    Returned (s2\<lparr>error := Some (''Something went wrong during the '' @
                                   ''transformation. Please try again.''),
                                 status := Error\<rparr>)
                | Resolved generatedBase64 \<Rightarrow>
                    (let generatedDataUrl = ''data:image/jpeg;base64,'' @ generatedBase64;
                         s3 = s2\<lparr>status := Removing_background\<rparr>
                     in case removeBackground env generatedDataUrl 30 of
                          Pending \<Rightarrow> Hung s3
                        | Rejected e \<Rightarrow>
                            Returned (s3\<lparr>error := Some (''Something went wrong during the '' @
                                           ''transformation. Please try again.''),
                                         status := Error\<rparr>)
                        | Resolved transparentDataUrl \<Rightarrow>
                            Returned ((updateHistory transparentDataUrl s3)
                                        \<lparr>status := Complete\<rparr>))))"

definition handleMagicEdit :: "Env \<Rightarrow> AppState \<Rightarrow> Outcome" where
  "handleMagicEdit env s =
     (case currentImage s of
        None \<Rightarrow> Returned s
      | Some cur \<Rightarrow>
          if cur = [] \<or> trim (editPrompt s) = [] then Returned s
          else
            (let s1 = s\<lparr>status := Processing, error := None\<rparr>;
                 base64Input = base64Of cur;
                 s2 = s1\<lparr>requests := requests s1 @
                          [editRequest base64Input (mimeType s) (editPrompt s)]\<rparr>
             in case editImage env base64Input (mimeType s) (editPrompt s) of
                  Pending \<Rightarrow> Hung s2
                | Rejected e \<Rightarrow>
                    Returned (s2\<lparr>error := Some (''Failed to edit image. The prompt might '' @
                                   ''be against safety policies.''),
                                 status := Error\<rparr>)
                | Resolved generatedBase64 \<Rightarrow>
                    (let generatedDataUrl = ''data:image/jpeg;base64,'' @ generatedBase64
                     in Returned ((updateHistory generatedDataUrl s2)
                                    \<lparr>status := Complete, editPrompt := []\<rparr>))))"

text \<open>
  The check for an API key stands before the \<^verbatim>\<open>try\<close> block of \<^verbatim>\<open>handleUpscale\<close>:
  what its two awaits do is the outcome of this gate.
\<close>

definition credentialGate :: "Env \<Rightarrow> unit promise" where
  "credentialGate env =
     (case aistudio env of
        None \<Rightarrow> Resolved ()
      | Some studio \<Rightarrow>
          (case hasSelectedApiKey studio of
             None \<Rightarrow> Resolved ()
           | Some Pending \<Rightarrow> Pending
           | Some (Rejected e) \<Rightarrow> Rejected e
           | Some (Resolved hasKey) \<Rightarrow>
               (if \<not> hasKey then
                  (case openSelectKey studio of None \<Rightarrow> Resolved () | Some opened \<Rightarrow> opened)
                else Resolved ())))"

definition handleUpscale :: "Env \<Rightarrow> AppState \<Rightarrow> Outcome" where
  "handleUpscale env s =
     (case currentImage s of
        None \<Rightarrow> Returned s
      | Some cur \<Rightarrow>
          if cur = [] then Returned s
          else
            (case credentialGate env of
               Pending \<Rightarrow> Hung s
             | Rejected e \<Rightarrow> Threw e s
             | Resolved u \<Rightarrow>
                 (let s1 = s\<lparr>status := Upscaling, error := None\<rparr>;
                      base64Input = base64Of cur;
                      s2 = s1\<lparr>requests := requests s1 @
                               [upscaleRequest base64Input (mimeType s)]\<rparr>
                  in case upscaleImage env base64Input (mimeType s) of
                       Pending \<Rightarrow> Hung s2
                     | Rejected e \<Rightarrow>
                         Returned (s2\<lparr>error := Some (''Failed to upscale image. Ensure you '' @
                                        ''have a valid API key selected for the Pro model.''),
                                      status := Error\<rparr>)
                     | Resolved upscaledBase64 \<Rightarrow>
                         (let upscaledDataUrl = ''data:image/jpeg;base64,'' @ upscaledBase64
                          in Returned ((updateHistory upscaledDataUrl s2)
                                         \<lparr>status := Complete\<rparr>)))))"

text \<open>
  \<^verbatim>\<open>history.slice(0, -1)\<close> is \<open>butlast\<close>; the guard makes the new history non-empty, so
  its last element exists.
\<close>

definition handleUndo :: "AppState \<Rightarrow> AppState" where
  "handleUndo s =
     (if length (history s) > 1 then
        (let newHistory = butlast (history s) in
         s\<lparr>history := newHistory,
           currentImage := item newHistory (length newHistory - 1)\<rparr>)
      else s)"

definition handleReset :: "AppState \<Rightarrow> AppState" where
  "handleReset s =
     (if truthy (originalImage s) \<and> mimeType s \<noteq> [] then
        (let initialUrl = ''data:'' @ mimeType s @ '';base64,'' @ tmpl (originalImage s) in
         s\<lparr>history := [initialUrl], currentImage := Some initialUrl\<rparr>)
      else s)"

subsection \<open>What drives the session\<close>

text \<open>
  The six operations, each with the collaborators as they answer that time, and the two
  other writes of the component: typing into the prompt field and dismissing the error.
\<close>

datatype Event =
    ImageSelect Env File
  | EmbroideryTransform Env
  | MagicEdit Env
  | Upscale Env
  | Undo
  | Reset
  | SetEditPrompt jsstring
  | DismissError

fun step :: "Event \<Rightarrow> AppState \<Rightarrow> AppState" where
  "step (ImageSelect env file) s = final (handleImageSelect env file s)"
| "step (EmbroideryTransform env) s = final (handleEmbroideryTransform env s)"
| "step (MagicEdit env) s = final (handleMagicEdit env s)"
| "step (Upscale env) s = final (handleUpscale env s)"
| "step Undo s = handleUndo s"
| "step Reset s = handleReset s"
| "step (SetEditPrompt t) s = s\<lparr>editPrompt := t\<rparr>"
| "step DismissError s = s\<lparr>error := None\<rparr>"

fun run :: "Event list \<Rightarrow> AppState \<Rightarrow> AppState" where
  "run [] s = s"
| "run (ev # evs) s = run evs (step ev s)"

text \<open>An event other than an upload that succeeds: the session stays the one it was.\<close>

fun keepsSession :: "Event \<Rightarrow> bool" where
  "keepsSession (ImageSelect env file) =
     (case resizeImage env file 1024 of Resolved r \<Rightarrow> False | Rejected e \<Rightarrow> True | Pending \<Rightarrow> True)"
| "keepsSession ev = True"

definition sessionInvariant :: "AppState \<Rightarrow> bool" where
  "sessionInvariant s =
     (history s \<noteq> [] \<and> currentImage s = Some (last (history s)))"

subsection \<open>The controls of the page\<close>

text \<open>
  The editing controls are rendered when \<^verbatim>\<open>currentImage\<close> is set, each with its
  \<^verbatim>\<open>disabled\<close> attribute; the undo button only while the history has more than one
  entry. A button that is not rendered or is disabled does not call its handler. The
  prompt input calls \<^verbatim>\<open>handleMagicEdit\<close> from its \<^verbatim>\<open>onKeyDown\<close> whenever the key is
  Enter: that handler has no condition on the status.
\<close>

datatype Control =
  EmbroideryButton | MagicEditButton | PromptEnterKey | UpscaleButton | UndoButton | ResetButton

fun enabled :: "AppState \<Rightarrow> Control \<Rightarrow> bool" where
  "enabled s EmbroideryButton =
     (truthy (currentImage s) \<and> \<not> (status s \<noteq> Idle \<and> status s \<noteq> Complete))"
| "enabled s MagicEditButton =
     (truthy (currentImage s) \<and>
      \<not> (trim (editPrompt s) = [] \<or> (status s \<noteq> Idle \<and> status s \<noteq> Complete)))"
| "enabled s PromptEnterKey = truthy (currentImage s)"
| "enabled s UpscaleButton =
     (truthy (currentImage s) \<and> \<not> (status s \<noteq> Idle \<and> status s \<noteq> Complete))"
| "enabled s UndoButton =
     (truthy (currentImage s) \<and> length (history s) > 1 \<and>
      \<not> (status s \<noteq> Idle \<and> status s \<noteq> Complete))"
| "enabled s ResetButton =
     (truthy (currentImage s) \<and>
      \<not> (length (history s) \<le> 1 \<or> (status s \<noteq> Idle \<and> status s \<noteq> Complete)))"

fun handler :: "Env \<Rightarrow> Control \<Rightarrow> AppState \<Rightarrow> Outcome" where
  "handler env EmbroideryButton s = handleEmbroideryTransform env s"
| "handler env MagicEditButton s = handleMagicEdit env s"
| "handler env PromptEnterKey s = handleMagicEdit env s"
| "handler env UpscaleButton s = handleUpscale env s"
| "handler env UndoButton s = Returned (handleUndo s)"
| "handler env ResetButton s = Returned (handleReset s)"

definition press :: "Env \<Rightarrow> Control \<Rightarrow> AppState \<Rightarrow> Outcome" where
  "press env c s = (if enabled s c then handler env c s else Returned s)"


section \<open>Predicates of the proofs\<close>

text \<open>
  From \<open>s\<close> to \<open>s'\<close> the history is the same or one entry longer, and the current
  image follows it.
\<close>

definition grows :: "AppState \<Rightarrow> AppState \<Rightarrow> bool" where
  "grows s s' =
     ((history s' = history s \<and> currentImage s' = currentImage s)
      \<or> (\<exists>u. history s' = history s @ [u] \<and> currentImage s' = Some u))"

text \<open>The history starts with the given URL.\<close>

definition rooted :: "string \<Rightarrow> AppState \<Rightarrow> bool" where
  "rooted url s = (history s \<noteq> [] \<and> hd (history s) = url)"

text \<open>The stored MIME type and that of every request made so far are \<^verbatim>\<open>image/jpeg\<close>.\<close>

definition jpegOnly :: "AppState \<Rightarrow> bool" where
  "jpegOnly s =
     (mimeType s = ''image/jpeg'' \<and> list_all (\<lambda>r. reqMimeType r = ''image/jpeg'') (requests s))"

section \<open>Example inputs\<close>

text \<open>
  A rounding given by a table of the results that are not exact: an operation whose exact
  result is in the table returns the double listed with it, any other result is returned
  as it is.
\<close>

definition roundAs :: "(real \<times> real) list \<Rightarrow> real \<Rightarrow> real" where
  "roundAs table x = (case map_of table x of None \<Rightarrow> x | Some d \<Rightarrow> d)"

text \<open>
  The results of the size computations below that are not whole, each with the double
  nearest to it: \<^verbatim>\<open>1024 / 2000\<close> and the product of its double with 1000, which rounds
  to 512; \<^verbatim>\<open>1024 / 1122\<close> and the product of its double with 561, which rounds to the
  double just below 512.
\<close>

definition sizeDoubles :: "(real \<times> real) list" where
  "sizeDoubles =
     [(64 / 125, 1152921504606847 / 2 ^ 51),
      (1000 * (1152921504606847 / 2 ^ 51), 512),
      (512 / 561, 2055118546536269 / 2 ^ 51),
      (561 * (2055118546536269 / 2 ^ 51), 9007199254740991 / 2 ^ 44)]"

text \<open>
  \<^verbatim>\<open>Math.SQRT2\<close>: the double nearest to the square root of 2, which \<^verbatim>\<open>Math.sqrt(2)\<close>
  returns.
\<close>

definition sqrt2Double :: real where
  "sqrt2Double = 6369051672525773 / 2 ^ 52"

text \<open>A white pixel and a dark one.\<close>

definition img0 :: ImageData where
  "img0 = \<lparr>width = 2, height = 1, data = [255, 255, 255, 255, 10, 20, 30, 255]\<rparr>"

text \<open>
  A browser in which everything works and a model that answers with an image; the same
  with a model that returns no candidate; the same with images that fail to load.
\<close>

definition file0 :: File where "file0 = []"

definition reply0 :: Response where
  "reply0 =
     \<lparr>candidates = Some [Candidate (Some [TextPart (js ''ok''), InlineData (Some ''R0VO'')])]\<rparr>"

definition env0 :: Env where
  "env0 =
     \<lparr>roundDouble = (\<lambda>x. x),
      readAsDataURL = (\<lambda>f. Some ''data:image/png;base64,SU4=''),
      loadImage = (\<lambda>u. Some img0),
      getContext = True,
      jpegDataURL = (\<lambda>img w h. ''data:image/jpeg;base64,SlBH''),
      pngDataURL = (\<lambda>img. ''data:image/png;base64,UE5H''),
      aistudio = None,
      generateContent = (\<lambda>r. Resolved reply0)\<rparr>"

definition envDown :: Env where
  "envDown = env0\<lparr>generateContent := (\<lambda>r. Resolved \<lparr>candidates = Some []\<rparr>)\<rparr>"

definition envBlind :: Env where
  "envBlind = env0\<lparr>loadImage := (\<lambda>u. None)\<rparr>"

text \<open>
  Three white images, and a browser that rounds as \<open>sizeDoubles\<close> says, loads the given
  image and writes the size of the canvas into the JPEG data URL.
\<close>

definition photo :: ImageData where
  "photo = \<lparr>width = 2000, height = 1000, data = replicate (4 * 2000 * 1000) 255\<rparr>"

definition snapshot :: ImageData where
  "snapshot = \<lparr>width = 1122, height = 561, data = replicate (4 * 1122 * 561) 255\<rparr>"

definition thumbnail :: ImageData where
  "thumbnail = \<lparr>width = 800, height = 600, data = replicate (4 * 800 * 600) 255\<rparr>"

definition sizeTag :: "nat \<Rightarrow> nat \<Rightarrow> string" where
  "sizeTag w h =
     (if (w, h) = (1024, 512) then ''MTAyNHg1MTI=''
      else if (w, h) = (1024, 511) then ''MTAyNHg1MTE=''
      else if (w, h) = (800, 600) then ''ODAweDYwMA==''
      else ''Pw=='')"

definition envShowing :: "ImageData \<Rightarrow> Env" where
  "envShowing img =
     env0\<lparr>roundDouble := roundAs sizeDoubles,
          loadImage := (\<lambda>u. Some img),
          jpegDataURL := (\<lambda>i w h. ''data:image/jpeg;base64,'' @ sizeTag w h)\<rparr>"

text \<open>
  One pixel next to white, and a browser that rounds the square root of 2 to
  \<open>sqrt2Double\<close>, loads that pixel and tells in the PNG data URL whether the first pixel
  is transparent.
\<close>

definition nearWhite :: ImageData where
  "nearWhite = \<lparr>width = 1, height = 1, data = [254, 254, 255, 255]\<rparr>"

definition envSqrt2 :: Env where
  "envSqrt2 =
     env0\<lparr>roundDouble := roundAs [(sqrt 2, sqrt2Double)],
          loadImage := (\<lambda>u. Some nearWhite),
          pngDataURL := (\<lambda>img. if data img ! 3 = 0 then ''data:image/png;base64,Y2xlYXI=''
                                 else ''data:image/png;base64,a2VwdA=='')\<rparr>"

text \<open>
  The session after the upload, after a style transformation that worked, after one that
  failed, with a prompt typed in, and with a prompt of white space only.
\<close>

definition uploaded :: AppState where
  "uploaded = final (handleImageSelect env0 file0 initialState)"

definition stitched :: AppState where
  "stitched = final (handleEmbroideryTransform env0 uploaded)"

definition failed :: AppState where
  "failed = final (handleEmbroideryTransform envDown uploaded)"

definition prompted :: AppState where
  "prompted = uploaded\<lparr>editPrompt := js ''add a hat''\<rparr>"

definition blank :: AppState where
  "blank = uploaded\<lparr>editPrompt := [0x20, 0x3000, 0x9]\<rparr>"

section \<open>Rounding\<close>

lemma doubleRounding_bounds:
  assumes "doubleRounding rnd" "1 / 2 ^ 64 \<le> x" "x \<le> 2 ^ 64"
  shows "x * (1 - 1 / 2 ^ 53) \<le> rnd x" and "rnd x \<le> x * (1 + 1 / 2 ^ 53)"
  using assms unfolding doubleRounding_def by blast+

lemma doubleRounding_nat:
  assumes "doubleRounding rnd" "n \<le> 2 ^ 53"
  shows "rnd (real n) = real n"
  using assms unfolding doubleRounding_def by blast

lemma doubleRounding_zero: "doubleRounding rnd \<Longrightarrow> rnd 0 = 0"
  using doubleRounding_nat[of rnd 0] by simp

lemma two_roundings:
  fixes x y p u :: real
  assumes x: "0 \<le> x" and u: "0 \<le> u" "u \<le> 1"
    and y: "x * (1 - u) \<le> y" "y \<le> x * (1 + u)"
    and p: "y * (1 - u) \<le> p" "p \<le> y * (1 + u)"
  shows "x - 2 * u * x \<le> p" and "p \<le> x + 3 * u * x"
proof -
  have lo2: "x * (1 - u) * (1 - u) \<le> p"
  proof -
    have "x * (1 - u) * (1 - u) \<le> y * (1 - u)"
      using y(1) u by (intro mult_right_mono) simp_all
    then show ?thesis using p(1) by linarith
  qed
  have hi2: "p \<le> x * (1 + u) * (1 + u)"
  proof -
    have "y * (1 + u) \<le> x * (1 + u) * (1 + u)"
      using y(2) u by (intro mult_right_mono) simp_all
    then show ?thesis using p(2) by linarith
  qed
  have xuu: "0 \<le> x * (u * u)" using x u by simp
  have "u * u \<le> 1 * u" using u by (intro mult_right_mono) simp_all
  then have "x * (u * u) \<le> x * u" using x by (intro mult_left_mono) simp_all
  then have xuu': "x * (u * u) \<le> u * x" by (simp add: mult.commute)
  have e1: "x * (1 - u) * (1 - u) = x - 2 * u * x + x * (u * u)" by (simp add: algebra_simps)
  have e2: "x * (1 + u) * (1 + u) = x + 2 * u * x + x * (u * u)" by (simp add: algebra_simps)
  show "x - 2 * u * x \<le> p" using lo2 xuu unfolding e1 by linarith
  show "p \<le> x + 3 * u * x" using hi2 xuu' unfolding e2 by linarith
qed

text \<open>
  A side \<open>a\<close> scaled by \<open>m / b\<close>, where \<open>b\<close> is the longer side and exceeds the
  bound \<open>m\<close>: the rounded product is within a half above and within \<open>1 / b\<close> below
  the exact one.
\<close>

lemma real_below_power: "(n::nat) < 2 ^ k \<Longrightarrow> real n \<le> 2 ^ k"
proof -
  assume "n < 2 ^ k"
  then have "real n < real (2 ^ k)" by (simp only: of_nat_less_iff)
  then show ?thesis by simp
qed

lemma rounded_scale:
  fixes a b m :: nat
  assumes rnd: "doubleRounding rnd"
    and ab: "a \<le> b" and mb: "m < b" and b26: "b < 2 ^ 26"
  shows "0 \<le> rnd (real a * rnd (real m / real b))"
    and "rnd (real a * rnd (real m / real b)) \<le> real a * (real m / real b) + 1 / 2"
    and "real a * (real m / real b) - 1 / real b \<le> rnd (real a * rnd (real m / real b))"
proof -
  define x where "x = real a * (real m / real b)"
  define p where "p = rnd (real a * rnd (real m / real b))"
  have bpos: "0 < real b" using mb by simp
  have goal: "0 \<le> p \<and> p \<le> x + 1 / 2 \<and> x - 1 / real b \<le> p"
  proof (cases "a = 0 \<or> m = 0")
    case True
    then have "p = 0" "x = 0"
      using doubleRounding_zero[OF rnd] by (auto simp: p_def x_def)
    then show ?thesis using bpos by simp
  next
    case False
    then have a1: "1 \<le> real a" and m1: "1 \<le> real m" by simp_all
    define u :: real where "u = 1 / 2 ^ 53"
    define r where "r = real m / real b"
    define q where "q = rnd r"
    define y where "y = real a * q"
    have u: "0 \<le> u" "u \<le> 1" "u \<le> 1 / 2" by (simp_all add: u_def)
    have b26': "real b \<le> 2 ^ 26" by (rule real_below_power[OF b26])
    have a26: "real a \<le> 2 ^ 26" using ab b26' by simp
    have m26: "real m \<le> 2 ^ 26" using mb b26' by simp
    have "1 / 2 ^ 26 \<le> 1 / real b" using b26' bpos by (simp add: frac_le)
    also have "\<dots> \<le> real m / real b" using m1 bpos by (simp add: divide_right_mono)
    finally have r_lo: "1 / 2 ^ 26 \<le> r" by (simp add: r_def)
    have r_hi: "r \<le> 1" using mb bpos by (simp add: r_def)
    have r_pos: "0 \<le> r" using bpos by (simp add: r_def)
    have r_rng: "1 / 2 ^ 64 \<le> r" "r \<le> 2 ^ 64"
      using r_lo r_hi by simp_all
    have q_lo: "r * (1 - u) \<le> q" and q_hi: "q \<le> r * (1 + u)"
      using doubleRounding_bounds[OF rnd r_rng] by (simp_all add: q_def u_def)
    have x_eq: "x = real a * r" by (simp add: x_def r_def)
    have y_lo: "x * (1 - u) \<le> y"
    proof -
      have "real a * (r * (1 - u)) \<le> real a * q" using q_lo by (intro mult_left_mono) simp_all
      then show ?thesis by (simp add: y_def x_eq mult.assoc)
    qed
    have y_hi: "y \<le> x * (1 + u)"
    proof -
      have "real a * q \<le> real a * (r * (1 + u))" using q_hi by (intro mult_left_mono) simp_all
      then show ?thesis by (simp add: y_def x_eq mult.assoc)
    qed
    have x_lo: "1 / 2 ^ 26 \<le> x"
    proof -
      have "1 * r \<le> real a * r" using a1 r_pos by (intro mult_right_mono) simp_all
      then have "r \<le> x" by (simp add: x_eq)
      then show ?thesis using r_lo by linarith
    qed
    have x_hi: "x \<le> 2 ^ 26"
    proof -
      have "real a * r \<le> real a * 1" using r_hi by (intro mult_left_mono) simp_all
      then have "x \<le> real a" by (simp add: x_eq)
      then show ?thesis using a26 by linarith
    qed
    have x_pos: "0 \<le> x" using r_pos by (simp add: x_eq)
    have y_rng: "1 / 2 ^ 64 \<le> y" "y \<le> 2 ^ 64"
    proof -
      have "(1::real) / 2 ^ 64 \<le> 1 / 2 ^ 26 * (1 / 2)" by simp
      also have "\<dots> \<le> x * (1 / 2)" using x_lo by (intro mult_right_mono) simp_all
      also have "\<dots> \<le> x * (1 - u)" using u x_pos by (intro mult_left_mono) simp_all
      also have "\<dots> \<le> y" by (rule y_lo)
      finally show "1 / 2 ^ 64 \<le> y" .
      have "y \<le> x * (1 + u)" by (rule y_hi)
      also have "\<dots> \<le> x * 2" using u x_pos by (intro mult_left_mono) simp_all
      also have "\<dots> \<le> 2 ^ 26 * 2" using x_hi by (intro mult_right_mono) simp_all
      also have "\<dots> \<le> (2::real) ^ 64" by simp
      finally show "y \<le> 2 ^ 64" .
    qed
    have p_lo: "y * (1 - u) \<le> p" and p_hi: "p \<le> y * (1 + u)"
      using doubleRounding_bounds[OF rnd y_rng] by (simp_all add: p_def y_def q_def r_def u_def)
    note tr = two_roundings[OF x_pos u(1,2) y_lo y_hi p_lo p_hi]
    have ux: "u * x \<le> u * 2 ^ 26" using x_hi u by (intro mult_left_mono) simp_all
    have "3 * u * x \<le> 1 / 2" using ux by (simp add: u_def)
    then have c2: "p \<le> x + 1 / 2" using tr(2) by linarith
    have am: "real a * real m \<le> 2 ^ 26 * 2 ^ 26"
      using a26 m26 by (intro mult_mono) simp_all
    have "2 * u * (real a * real m) \<le> 2 * u * (2 ^ 26 * 2 ^ 26)"
      using am u by (intro mult_left_mono) simp_all
    also have "\<dots> = 1" by (simp add: u_def)
    finally have "2 * u * (real a * real m) / real b \<le> 1 / real b"
      using bpos by (simp add: divide_right_mono)
    moreover have "2 * u * x = 2 * u * (real a * real m) / real b" by (simp add: x_def)
    ultimately have c3: "x - 1 / real b \<le> p" using tr(1) by linarith
    have "0 \<le> y * (1 - u)" using y_rng(1) u by simp
    then have c1: "0 \<le> p" using p_lo by linarith
    show ?thesis using c1 c2 c3 by simp
  qed
  then show "0 \<le> rnd (real a * rnd (real m / real b))"
    and "rnd (real a * rnd (real m / real b)) \<le> real a * (real m / real b) + 1 / 2"
    and "real a * (real m / real b) - 1 / real b \<le> rnd (real a * rnd (real m / real b))"
    by (simp_all add: p_def x_def)
qed

lemma floor_rounded_scale:
  fixes a b m :: nat
  assumes rnd: "doubleRounding rnd"
    and ab: "a \<le> b" and mb: "m < b" and b26: "b < 2 ^ 26"
  shows "nat \<lfloor>rnd (real a * rnd (real m / real b))\<rfloor> \<le> m"
    and "\<bar>real (nat \<lfloor>rnd (real a * rnd (real m / real b))\<rfloor>) - real m / real b * real a\<bar> \<le> 1"
proof -
  define x where "x = real a * (real m / real b)"
  define p where "p = rnd (real a * rnd (real m / real b))"
  note rs = rounded_scale[OF rnd ab mb b26, folded p_def x_def]
  have bpos: "0 < real b" using mb by simp
  have "real a / real b \<le> 1" using ab bpos by simp
  then have "real m * (real a / real b) \<le> real m * 1" by (intro mult_left_mono) simp_all
  then have xm: "x \<le> real m" by (simp add: x_def mult.commute)
  have fl: "real_of_int \<lfloor>p\<rfloor> \<le> p" "p < real_of_int \<lfloor>p\<rfloor> + 1" by linarith+
  have f0: "0 \<le> \<lfloor>p\<rfloor>" using rs(1) by simp
  have nf: "real (nat \<lfloor>p\<rfloor>) = real_of_int \<lfloor>p\<rfloor>" using f0 by simp
  have "real_of_int \<lfloor>p\<rfloor> < real m + 1" using fl(1) rs(2) xm by linarith
  then have "\<lfloor>p\<rfloor> < int m + 1" by (simp add: of_int_less_iff[symmetric] del: of_int_less_iff)
  then have c1: "nat \<lfloor>p\<rfloor> \<le> m" by linarith
  have up: "real_of_int \<lfloor>p\<rfloor> \<le> x + 1" using fl(1) rs(2) by linarith
  have lo: "x - 1 \<le> real_of_int \<lfloor>p\<rfloor>"
  proof (rule ccontr)
    assume "\<not> x - 1 \<le> real_of_int \<lfloor>p\<rfloor>"
    then have lt: "real_of_int (\<lfloor>p\<rfloor> + 1) < x" by simp
    have "real_of_int (\<lfloor>p\<rfloor> + 1) * real b < x * real b"
      using lt bpos by (intro mult_strict_right_mono) simp_all
    also have "x * real b = real (a * m)" using bpos by (simp add: x_def)
    finally have "real_of_int ((\<lfloor>p\<rfloor> + 1) * int b) < real_of_int (int (a * m))" by simp
    then have "(\<lfloor>p\<rfloor> + 1) * int b < int (a * m)" by (simp only: of_int_less_iff)
    then have "(\<lfloor>p\<rfloor> + 1) * int b + 1 \<le> int (a * m)" by linarith
    then have "real_of_int ((\<lfloor>p\<rfloor> + 1) * int b + 1) \<le> real_of_int (int (a * m))"
      by (simp only: of_int_le_iff)
    then have "real_of_int (\<lfloor>p\<rfloor> + 1) * real b + 1 \<le> real a * real m" by simp
    then have "(real_of_int (\<lfloor>p\<rfloor> + 1) * real b + 1) / real b \<le> real a * real m / real b"
      using bpos by (intro divide_right_mono) simp_all
    then have "real_of_int (\<lfloor>p\<rfloor> + 1) + 1 / real b \<le> x"
      using bpos by (simp add: x_def add_divide_distrib)
    then have "real_of_int (\<lfloor>p\<rfloor> + 1) \<le> p" using rs(3) by linarith
    then show False using fl(2) by simp
  qed
  have xe: "real m / real b * real a = x" by (simp add: x_def)
  have c2: "\<bar>real (nat \<lfloor>p\<rfloor>) - real m / real b * real a\<bar> \<le> 1"
    unfolding xe nf using up lo by linarith
  show "nat \<lfloor>rnd (real a * rnd (real m / real b))\<rfloor> \<le> m"
    using c1 by (simp add: p_def)
  show "\<bar>real (nat \<lfloor>rnd (real a * rnd (real m / real b))\<rfloor>) - real m / real b * real a\<bar> \<le> 1"
    using c2 by (simp add: p_def)
qed

text \<open>
  Against a whole number the rounded square root of a whole number compares as the exact
  square root does.
\<close>

lemma rounded_sqrt_compare:
  fixes n T :: nat
  assumes rnd: "doubleRounding rnd" and n50: "n < 2 ^ 50"
  shows "rnd (sqrt (real n)) < real T \<longleftrightarrow> sqrt (real n) < real T"
proof (cases "n = 0")
  case True
  then show ?thesis using doubleRounding_zero[OF rnd] by simp
next
  case False
  define u :: real where "u = 1 / 2 ^ 53"
  define y where "y = sqrt (real n)"
  have u: "0 \<le> u" "u \<le> 1" by (simp_all add: u_def)
  have n1: "1 \<le> real n" using False by simp
  have nhi: "real n \<le> 2 ^ 50" by (rule real_below_power[OF n50])
  have y2: "y\<^sup>2 = real n" by (simp add: y_def)
  have yy: "y * y = real n" using y2 by (simp add: power2_eq_square)
  have y1: "1 \<le> y" using n1 by (simp add: y_def)
  have "y \<le> sqrt (2 ^ 50)" unfolding y_def using nhi by (simp only: real_sqrt_le_iff)
  also have "sqrt (2 ^ 50) = sqrt ((2 ^ 25)\<^sup>2)" by simp
  also have "\<dots> = 2 ^ 25" by (simp only: real_sqrt_abs) simp
  finally have yhi: "y \<le> 2 ^ 25" .
  have rng: "1 / 2 ^ 64 \<le> y" "y \<le> 2 ^ 64"
  proof -
    have "(1::real) / 2 ^ 64 \<le> 1" by simp
    then show "1 / 2 ^ 64 \<le> y" using y1 by linarith
    have "(2::real) ^ 25 \<le> 2 ^ 64" by simp
    then show "y \<le> 2 ^ 64" using yhi by linarith
  qed
  have lo: "y * (1 - u) \<le> rnd y" and hi: "rnd y \<le> y * (1 + u)"
    using doubleRounding_bounds[OF rnd rng] by (simp_all add: u_def)
  have nu: "3 * u * real n < 1"
  proof -
    have "3 * u * real n \<le> 3 * u * 2 ^ 50" using nhi u by (intro mult_left_mono) simp_all
    also have "\<dots> < 1" by (simp add: u_def)
    finally show ?thesis .
  qed
  have uu: "u * u \<le> u"
  proof -
    have "u * u \<le> 1 * u" using u by (intro mult_right_mono) simp_all
    then show ?thesis by simp
  qed
  have nuu: "real n * (u * u) \<le> real n * u" using uu by (intro mult_left_mono) simp_all
  have sq_hi: "(y * (1 + u))\<^sup>2 < real n + 1"
  proof -
    have "(y * (1 + u))\<^sup>2 = real n * ((1 + u) * (1 + u))"
      by (simp add: power2_eq_square mult.assoc mult.left_commute yy[symmetric])
    also have "\<dots> = real n + 2 * u * real n + real n * (u * u)" by (simp add: algebra_simps)
    also have "\<dots> \<le> real n + 3 * u * real n" using nuu by (simp add: algebra_simps)
    finally show ?thesis using nu by linarith
  qed
  have sq_lo: "real n - 1 < (y * (1 - u))\<^sup>2"
  proof -
    have "(y * (1 - u))\<^sup>2 = real n * ((1 - u) * (1 - u))"
      by (simp add: power2_eq_square mult.assoc mult.left_commute yy[symmetric])
    also have "\<dots> = real n - 2 * u * real n + real n * (u * u)" by (simp add: algebra_simps)
    finally have "real n - 2 * u * real n \<le> (y * (1 - u))\<^sup>2" using u by simp
    moreover have "2 * u * real n \<le> 3 * u * real n" using u by simp
    ultimately show ?thesis using nu by linarith
  qed
  have pos: "0 \<le> y * (1 - u)" "0 \<le> y * (1 + u)" using y1 u by simp_all
  show ?thesis
  proof
    assume a: "rnd (sqrt (real n)) < real T"
    show "sqrt (real n) < real T"
    proof (rule ccontr)
      assume "\<not> sqrt (real n) < real T"
      then have ge: "real T \<le> y" by (simp add: y_def)
      then have "(real T)\<^sup>2 \<le> y\<^sup>2" by (intro power_mono) simp_all
      then have "real (T\<^sup>2) \<le> real n" by (simp add: y2)
      then have Tn: "T\<^sup>2 \<le> n" by (simp only: of_nat_le_iff)
      show False
      proof (cases "T\<^sup>2 = n")
        case True
        then have "y = real T" by (simp add: y_def True[symmetric])
        moreover have "T \<le> 2 ^ 53"
        proof -
          have "T \<le> T\<^sup>2" by (simp add: power2_nat_le_imp_le)
          also have "\<dots> < 2 ^ 50" using True n50 by simp
          finally show ?thesis by simp
        qed
        ultimately have "rnd y = real T" using doubleRounding_nat[OF rnd] by simp
        then show False using a by (simp add: y_def)
      next
        case False
        then have "T\<^sup>2 + 1 \<le> n" using Tn by simp
        then have "real (T\<^sup>2 + 1) \<le> real n" by (simp only: of_nat_le_iff)
        then have "(real T)\<^sup>2 \<le> real n - 1" by simp
        then have "(real T)\<^sup>2 \<le> (y * (1 - u))\<^sup>2" using sq_lo by linarith
        then have "real T \<le> y * (1 - u)" using pos(1) by (rule power2_le_imp_le)
        then show False using lo a by (simp add: y_def)
      qed
    qed
  next
    assume b: "sqrt (real n) < real T"
    then have yT: "y < real T" by (simp add: y_def)
    have "y\<^sup>2 < (real T)\<^sup>2" using yT y1 by (intro power_strict_mono) simp_all
    then have "real n < real (T\<^sup>2)" by (simp add: y2)
    then have "n < T\<^sup>2" by (simp only: of_nat_less_iff)
    then have "n + 1 \<le> T\<^sup>2" by simp
    then have "real (n + 1) \<le> real (T\<^sup>2)" by (simp only: of_nat_le_iff)
    then have "real n + 1 \<le> (real T)\<^sup>2" by simp
    then have "(y * (1 + u))\<^sup>2 < (real T)\<^sup>2" using sq_hi by linarith
    then have "y * (1 + u) < real T" by (rule power2_less_imp_less) simp
    then show "rnd (sqrt (real n)) < real T" using hi by (simp add: y_def)
  qed
qed

subsection \<open>Roundings given by a table\<close>

text \<open>
  A table of results that are not whole, each with a double within the relative error of
  its exact value, gives a rounding of the kind assumed.
\<close>

lemma doubleRounding_roundAs:
  assumes "list_all (\<lambda>(x, d). 0 \<le> x \<and> x * (1 - 1 / 2 ^ 53) \<le> d \<and> d \<le> x * (1 + 1 / 2 ^ 53)
             \<and> x \<noteq> of_int \<lfloor>x\<rfloor>) table"
  shows "doubleRounding (roundAs table)"
proof -
  have entry: "x * (1 - 1 / 2 ^ 53) \<le> d \<and> d \<le> x * (1 + 1 / 2 ^ 53) \<and> x \<noteq> of_int \<lfloor>x\<rfloor>"
    if "map_of table x = Some d" for x d
  proof -
    have "(x, d) \<in> set table" using that by (rule map_of_SomeD)
    then show ?thesis using assms by (auto simp: list_all_iff)
  qed
  have bounds: "x * (1 - 1 / 2 ^ 53) \<le> roundAs table x \<and> roundAs table x \<le> x * (1 + 1 / 2 ^ 53)"
    if "1 / 2 ^ 64 \<le> x" for x
  proof (cases "map_of table x")
    case None
    have "0 \<le> x" using that by (rule order_trans[rotated]) simp
    then have "x * (1 - 1 / 2 ^ 53) \<le> x * 1" "x * 1 \<le> x * (1 + 1 / 2 ^ 53)"
      by (intro mult_left_mono; simp)+
    then show ?thesis using None by (simp add: roundAs_def)
  next
    case (Some d)
    then show ?thesis using entry[OF Some] by (simp add: roundAs_def)
  qed
  have whole: "roundAs table (real n) = real n" for n
  proof (cases "map_of table (real n)")
    case None
    then show ?thesis by (simp add: roundAs_def)
  next
    case (Some d)
    then show ?thesis using entry[OF Some] by simp
  qed
  show ?thesis using bounds whole by (simp add: doubleRounding_def)
qed

section \<open>The pass over the pixels\<close>

declare removeBackgroundLoop.simps [simp del]

lemma length_removeBackgroundLoop [simp]:
  "length (removeBackgroundLoop rnd t i d) = length d"
proof (induction rnd t i d rule: removeBackgroundLoop.induct)
  case (1 rnd t i d)
  show ?case
    by (subst removeBackgroundLoop.simps) (use 1 in \<open>simp split: if_splits\<close>)
qed

lemma item_update_neq: "p \<noteq> k \<Longrightarrow> item (d[k := v]) p = item d p"
  by (simp add: item_def)

lemma nearTarget_update:
  assumes "p \<noteq> k" "p + 1 \<noteq> k" "p + 2 \<noteq> k"
  shows "nearTarget rnd t (d[k := v]) p = nearTarget rnd t d p"
  unfolding nearTarget_def using assms by (simp add: item_update_neq)

lemma removeBackgroundLoop_step:
  "i < length d \<Longrightarrow>
   removeBackgroundLoop rnd t i d =
     removeBackgroundLoop rnd t (i + 4) (if nearTarget rnd t d i then d[i + 3 := 0] else d)"
  by (subst removeBackgroundLoop.simps) simp

lemma removeBackgroundLoop_stop:
  "\<not> i < length d \<Longrightarrow> removeBackgroundLoop rnd t i d = d"
  by (subst removeBackgroundLoop.simps) simp

lemma nth_removeBackgroundLoop:
  "i mod 4 = 0 \<Longrightarrow> j < length d \<Longrightarrow>
   removeBackgroundLoop rnd t i d ! j =
     (if i \<le> j \<and> j mod 4 = 3 \<and> nearTarget rnd t d (j - 3) then 0 else d ! j)"
proof (induction "length d - i" arbitrary: i d rule: less_induct)
  case less
  note i4 = \<open>i mod 4 = 0\<close> and jlen = \<open>j < length d\<close>
  show ?case
  proof (cases "i < length d")
    case False
    then have "\<not> i \<le> j" using jlen by simp
    then show ?thesis using False by (simp add: removeBackgroundLoop_stop)
  next
    case True
    define d' where "d' = (if nearTarget rnd t d i then d[i + 3 := 0] else d)"
    have len: "length d' = length d" by (simp add: d'_def)
    have unf: "removeBackgroundLoop rnd t i d = removeBackgroundLoop rnd t (i + 4) d'"
      unfolding d'_def using True by (rule removeBackgroundLoop_step)
    have i4': "(i + 4) mod 4 = 0" using i4 by simp
    have jlen': "j < length d'" using jlen len by simp
    have m: "length d' - (i + 4) < length d - i" using True len by simp
    have IH: "removeBackgroundLoop rnd t (i + 4) d' ! j =
       (if i + 4 \<le> j \<and> j mod 4 = 3 \<and> nearTarget rnd t d' (j - 3) then 0 else d' ! j)"
      by (rule less.hyps[OF m i4' jlen'])
    consider (now) "j = i + 3" | (later) "i + 4 \<le> j" "j mod 4 = 3"
      | (other) "j \<noteq> i + 3" "\<not> (i + 4 \<le> j \<and> j mod 4 = 3)"
      by blast
    then show ?thesis
    proof cases
      case now
      have j3: "j mod 4 = 3" using now i4 by presburger
      have "removeBackgroundLoop rnd t i d ! j = d' ! j"
        unfolding unf IH using now by simp
      also have "\<dots> = (if nearTarget rnd t d i then 0 else d ! j)"
        unfolding d'_def using now jlen by simp
      finally show ?thesis using now j3 by simp
    next
      case later
      have neq: "j - 3 \<noteq> i + 3" "j - 3 + 1 \<noteq> i + 3" "j - 3 + 2 \<noteq> i + 3"
        using later i4 by presburger+
      have nr: "nearTarget rnd t d' (j - 3) = nearTarget rnd t d (j - 3)"
        unfolding d'_def using nearTarget_update[OF neq] by (cases "nearTarget rnd t d i") simp_all
      have "j \<noteq> i + 3" using later by simp
      then have dj: "d' ! j = d ! j" unfolding d'_def by simp
      have "removeBackgroundLoop rnd t i d ! j = (if nearTarget rnd t d (j - 3) then 0 else d ! j)"
        unfolding unf IH nr dj using later by simp
      then show ?thesis using later by simp
    next
      case other
      have no: "\<not> (i \<le> j \<and> j mod 4 = 3)" using other i4 by presburger
      have dj: "d' ! j = d ! j" unfolding d'_def using other(1) by simp
      have "removeBackgroundLoop rnd t i d ! j = d ! j"
        unfolding unf IH dj using other(2) by auto
      then show ?thesis using no by auto
    qed
  qed
qed

lemma nearTarget_removeBackgroundLoop:
  assumes "p mod 4 = 0"
  shows "nearTarget rnd t (removeBackgroundLoop rnd t 0 d) p = nearTarget rnd t d p"
proof -
  have "item (removeBackgroundLoop rnd t 0 d) q = item d q" if "q mod 4 \<noteq> 3" for q
    using that by (simp add: item_def nth_removeBackgroundLoop)
  moreover have "p mod 4 \<noteq> 3" "(p + 1) mod 4 \<noteq> 3" "(p + 2) mod 4 \<noteq> 3"
    using assms by presburger+
  ultimately show ?thesis by (simp add: nearTarget_def)
qed

lemma removeBackgroundLoop_idem:
  "removeBackgroundLoop rnd t 0 (removeBackgroundLoop rnd t 0 d) = removeBackgroundLoop rnd t 0 d"
proof (rule nth_equalityI)
  show "length (removeBackgroundLoop rnd t 0 (removeBackgroundLoop rnd t 0 d)) = length (removeBackgroundLoop rnd t 0 d)"
    by simp
next
  fix j assume "j < length (removeBackgroundLoop rnd t 0 (removeBackgroundLoop rnd t 0 d))"
  then have j: "j < length d" by simp
  show "removeBackgroundLoop rnd t 0 (removeBackgroundLoop rnd t 0 d) ! j = removeBackgroundLoop rnd t 0 d ! j"
  proof (cases "j mod 4 = 3")
    case True
    then have "(j - 3) mod 4 = 0" by presburger
    then have "nearTarget rnd t (removeBackgroundLoop rnd t 0 d) (j - 3) = nearTarget rnd t d (j - 3)"
      by (rule nearTarget_removeBackgroundLoop)
    then show ?thesis using j by (simp add: nth_removeBackgroundLoop)
  next
    case False
    then show ?thesis using j by (simp add: nth_removeBackgroundLoop)
  qed
qed

lemma nearTarget_pixel:
  assumes "4 * k + 3 < length d"
  shows "nearTarget rnd t d (4 * k) \<longleftrightarrow>
    rnd (sqrt ((real (unat (d ! (4 * k))) - targetR)\<^sup>2
             + (real (unat (d ! (4 * k + 1))) - targetG)\<^sup>2
             + (real (unat (d ! (4 * k + 2))) - targetB)\<^sup>2)) < t"
  using assms by (simp add: nearTarget_def item_def diff_def below_def)

lemma alpha_removeBackgroundPixels:
  assumes "4 * k + 3 < length (data img)"
  shows "data (removeBackgroundPixels rnd t img) ! (4 * k + 3) =
      (if nearTarget rnd t (data img) (4 * k) then 0 else data img ! (4 * k + 3))"
proof -
  have "(0::nat) mod 4 = 0" "(4 * k + 3) mod 4 = 3" by presburger+
  then show ?thesis
    using nth_removeBackgroundLoop[OF _ assms, of 0 rnd t]
    by (simp add: removeBackgroundPixels_def)
qed

lemma colour_removeBackgroundPixels:
  assumes "j < length (data img)" "j mod 4 \<noteq> 3"
  shows "data (removeBackgroundPixels rnd t img) ! j = data img ! j"
  using nth_removeBackgroundLoop[OF _ assms(1), of 0 rnd t] assms(2)
  by (simp add: removeBackgroundPixels_def)

text \<open>The squared distance of a pixel from white is a whole number.\<close>

lemma channel_square: "(real (unat (c :: 8 word)) - 255)\<^sup>2 = real ((255 - unat c)\<^sup>2)"
proof -
  have "unat c < 2 ^ LENGTH(8)" by (rule unsigned_less)
  then have "unat c \<le> 255" by simp
  then have "real (255 - unat c) = 255 - real (unat c)" by (simp add: of_nat_diff)
  then show ?thesis by (simp add: power2_commute)
qed

lemma channel_bound: "(255 - unat (c :: 8 word))\<^sup>2 \<le> 255\<^sup>2"
  by (rule power_mono) simp_all

lemma distance_whole:
  fixes r g b :: "8 word"
  shows "\<exists>n::nat. n < 2 ^ 50 \<and>
    (real (unat r) - targetR)\<^sup>2 + (real (unat g) - targetG)\<^sup>2 + (real (unat b) - targetB)\<^sup>2
      = real n"
proof -
  let ?n = "(255 - unat r)\<^sup>2 + (255 - unat g)\<^sup>2 + (255 - unat b)\<^sup>2"
  have "?n \<le> 255\<^sup>2 + 255\<^sup>2 + 255\<^sup>2"
    using channel_bound[of r] channel_bound[of g] channel_bound[of b] by linarith
  then have "?n < 2 ^ 50" by simp
  moreover have "(real (unat r) - targetR)\<^sup>2 + (real (unat g) - targetG)\<^sup>2
      + (real (unat b) - targetB)\<^sup>2 = real ?n"
    unfolding targetR_def targetG_def targetB_def channel_square by simp
  ultimately show ?thesis by blast
qed

text \<open>
  Claim C4, as the code has it. For an image that loads, on a canvas that gives a
  context, \<^verbatim>\<open>removeBackground\<close> resolves with the PNG data URL of the buffer that the
  pass over the pixels leaves. That buffer has the size of the image and differs from its
  pixels in alpha bytes only. For the pixel \<open>k\<close>: R, G and B are the bytes they were;
  when the distance of (R, G, B) from the target colour, which is white, as
  \<^verbatim>\<open>Math.sqrt\<close> returns it, is at least the tolerance, the alpha byte is the byte it was
  too; when it is below the tolerance, the alpha byte is 0. For a tolerance that is a
  whole number, as the 30 that the application passes is, the same holds of the exact
  Euclidean distance. What the PNG encoder makes of the colour of a transparent pixel is
  the browser's.
\<close>

theorem removeBackground_pixelwise:
  assumes "loadImage env url = Some img" and "getContext env"
    and "4 * k + 3 < length (data img)"
  shows "let rnd = roundDouble env;
             out = removeBackgroundPixels rnd t img;
             distance = sqrt ((real (unat (data img ! (4 * k))) - targetR)\<^sup>2
                            + (real (unat (data img ! (4 * k + 1))) - targetG)\<^sup>2
                            + (real (unat (data img ! (4 * k + 2))) - targetB)\<^sup>2)
         in removeBackground env url t = Resolved (pngDataURL env out)
          \<and> width out = width img \<and> height out = height img
          \<and> length (data out) = length (data img)
          \<and> data out ! (4 * k) = data img ! (4 * k)
          \<and> data out ! (4 * k + 1) = data img ! (4 * k + 1)
          \<and> data out ! (4 * k + 2) = data img ! (4 * k + 2)
          \<and> (rnd distance \<ge> t \<longrightarrow> data out ! (4 * k + 3) = data img ! (4 * k + 3))
          \<and> (rnd distance < t \<longrightarrow> data out ! (4 * k + 3) = 0)
          \<and> (doubleRounding rnd \<and> t = real T \<longrightarrow>
               (distance \<ge> t \<longrightarrow> data out ! (4 * k + 3) = data img ! (4 * k + 3))
             \<and> (distance < t \<longrightarrow> data out ! (4 * k + 3) = 0))"
proof -
  let ?rnd = "roundDouble env"
  let ?d = "data img"
  let ?e = "(real (unat (?d ! (4 * k))) - targetR)\<^sup>2
          + (real (unat (?d ! (4 * k + 1))) - targetG)\<^sup>2
          + (real (unat (?d ! (4 * k + 2))) - targetB)\<^sup>2"
  have out: "removeBackground env url t
      = Resolved (pngDataURL env (removeBackgroundPixels ?rnd t img))"
    using assms(1,2) by (simp add: removeBackground_def)
  have m: "(4 * k) mod 4 \<noteq> 3" "(4 * k + 1) mod 4 \<noteq> 3" "(4 * k + 2) mod 4 \<noteq> 3"
    by presburger+
  have rng: "4 * k < length ?d" "4 * k + 1 < length ?d" "4 * k + 2 < length ?d"
    using assms(3) by simp_all
  have size: "width (removeBackgroundPixels ?rnd t img) = width img"
    "height (removeBackgroundPixels ?rnd t img) = height img"
    "length (data (removeBackgroundPixels ?rnd t img)) = length ?d"
    by (simp_all add: removeBackgroundPixels_def)
  note colour = colour_removeBackgroundPixels[OF rng(1) m(1), of ?rnd t]
    colour_removeBackgroundPixels[OF rng(2) m(2), of ?rnd t]
    colour_removeBackgroundPixels[OF rng(3) m(3), of ?rnd t]
  have alpha: "data (removeBackgroundPixels ?rnd t img) ! (4 * k + 3) =
      (if ?rnd (sqrt ?e) < t then 0 else ?d ! (4 * k + 3))"
    using alpha_removeBackgroundPixels[OF assms(3), of ?rnd t]
      nearTarget_pixel[OF assms(3), of ?rnd t]
    by simp
  have exact: "?rnd (sqrt ?e) < t \<longleftrightarrow> sqrt ?e < t" if "doubleRounding ?rnd \<and> t = real T"
  proof -
    obtain n :: nat where n: "n < 2 ^ 50" "?e = real n"
      using distance_whole[of "?d ! (4 * k)" "?d ! (4 * k + 1)" "?d ! (4 * k + 2)"] by blast
    show ?thesis
      using rounded_sqrt_compare[of ?rnd n T] that n by simp
  qed
  show ?thesis
    unfolding Let_def out size colour alpha using exact by auto
qed

text \<open>
  Claim C5. Running the pass a second time with the same tolerance gives what the first
  run gave: the test reads R, G and B only, and the first run wrote alpha bytes only.
\<close>

theorem removeBackground_idempotent:
  "removeBackgroundPixels rnd t (removeBackgroundPixels rnd t img)
     = removeBackgroundPixels rnd t img"
  by (simp add: removeBackgroundPixels_def removeBackgroundLoop_idem)

subsection \<open>The two pixels of the example\<close>

lemma far_example: "(30::real) \<le> sqrt (245\<^sup>2 + 235\<^sup>2 + 225\<^sup>2)"
  by (rule real_le_rsqrt) simp

lemma doubleRounding_exact: "doubleRounding (\<lambda>x. x)"
  by (simp add: doubleRounding_def algebra_simps)

text \<open>In a browser whose rounding changes nothing, with the tolerance 30.\<close>

theorem removeBackground_pixelwise_witness:
  "loadImage env0 ''data:image/jpeg;base64,R0VO'' = Some img0 \<and> getContext env0
   \<and> 4 * 0 + 3 < length (data img0) \<and> 4 * 1 + 3 < length (data img0)
   \<and> doubleRounding (roundDouble env0) \<and> (30::real) = real (30::nat)
   \<and> removeBackground env0 ''data:image/jpeg;base64,R0VO'' 30
       = Resolved (pngDataURL env0 (removeBackgroundPixels (roundDouble env0) 30 img0))
   \<and> data (removeBackgroundPixels (roundDouble env0) 30 img0) ! 3 = 0
   \<and> data (removeBackgroundPixels (roundDouble env0) 30 img0) ! 7 = 255
   \<and> data (removeBackgroundPixels (roundDouble env0) 30 img0) ! 4 = 10
   \<and> width (removeBackgroundPixels (roundDouble env0) 30 img0) = 2"
proof -
  have e: "loadImage env0 u = Some img0" "getContext env0" "roundDouble env0 = (\<lambda>x. x)" for u
    by (simp_all add: env0_def)
  show ?thesis
    using removeBackground_pixelwise[of env0 "''data:image/jpeg;base64,R0VO''" img0 0 30 30]
      removeBackground_pixelwise[of env0 "''data:image/jpeg;base64,R0VO''" img0 1 30 30]
      far_example doubleRounding_exact
    by (simp add: e Let_def img0_def targetR_def targetG_def targetB_def)
qed

theorem removeBackground_idempotent_witness:
  "removeBackgroundPixels (\<lambda>x. x) 30 (removeBackgroundPixels (\<lambda>x. x) 30 img0)
     = removeBackgroundPixels (\<lambda>x. x) 30 img0"
  by (rule removeBackground_idempotent)

subsection \<open>A tolerance that is not a whole number\<close>

lemma sqrt2_below: "sqrt 2 < sqrt2Double"
  unfolding sqrt2Double_def by (rule real_less_lsqrt) (simp_all add: power2_eq_square)

lemma sqrt2_above: "sqrt2Double \<le> sqrt 2 * (1 + 1 / 2 ^ 53)"
proof -
  have "sqrt2Double / (1 + 1 / 2 ^ 53) \<le> sqrt 2"
    unfolding sqrt2Double_def by (rule real_le_rsqrt) (simp add: power2_eq_square)
  then show ?thesis by (simp add: field_simps)
qed

lemma sqrt2_fraction: "sqrt 2 \<noteq> of_int \<lfloor>sqrt 2\<rfloor>"
proof -
  have lo: "1 < sqrt 2" by (rule real_less_rsqrt) simp
  have hi: "sqrt 2 < 2" by (rule real_less_lsqrt) simp_all
  have "\<lfloor>sqrt 2\<rfloor> = 1" using lo hi by (simp add: floor_eq_iff)
  then show ?thesis using lo by simp
qed

lemma doubleRounding_sqrt2: "doubleRounding (roundAs [(sqrt 2, sqrt2Double)])"
proof (rule doubleRounding_roundAs)
  have "sqrt 2 * (1 - 1 / 2 ^ 53) \<le> sqrt 2 * 1" by (intro mult_left_mono) simp_all
  also have "\<dots> = sqrt 2" by simp
  also have "\<dots> \<le> sqrt2Double" using sqrt2_below by (rule less_imp_le)
  finally have "sqrt 2 * (1 - 1 / 2 ^ 53) \<le> sqrt2Double" .
  then show "list_all (\<lambda>(x, d). 0 \<le> x \<and> x * (1 - 1 / 2 ^ 53) \<le> d \<and> d \<le> x * (1 + 1 / 2 ^ 53)
             \<and> x \<noteq> of_int \<lfloor>x\<rfloor>) [(sqrt 2, sqrt2Double)]"
    using sqrt2_above sqrt2_fraction by simp
qed

lemma nearWhite_distance:
  "sqrt ((real (unat (254 :: 8 word)) - targetR)\<^sup>2 + (real (unat (254 :: 8 word)) - targetG)\<^sup>2
       + (real (unat (255 :: 8 word)) - targetB)\<^sup>2) = sqrt 2"
  by (simp add: targetR_def targetG_def targetB_def)

lemma nearWhite_kept:
  "removeBackgroundPixels (roundAs [(sqrt 2, sqrt2Double)]) sqrt2Double nearWhite = nearWhite"
proof -
  have "\<not> nearTarget (roundAs [(sqrt 2, sqrt2Double)]) sqrt2Double [254, 254, 255, 255] 0"
    using nearWhite_distance by (simp add: nearTarget_def item_def diff_def below_def roundAs_def)
  then have "removeBackgroundLoop (roundAs [(sqrt 2, sqrt2Double)]) sqrt2Double 0 [254, 254, 255, 255]
      = [254, 254, 255, 255]"
    by (simp add: removeBackgroundLoop_step removeBackgroundLoop_stop)
  then show ?thesis by (simp add: removeBackgroundPixels_def nearWhite_def)
qed

text \<open>
  Claim C4 as the specification has it fails. The pixel (254, 254, 255) is at the
  distance \<open>\<surd>2\<close> from white. With the tolerance \<^verbatim>\<open>Math.SQRT2\<close>, the double next above
  \<open>\<surd>2\<close>, the exact distance is below the tolerance; \<^verbatim>\<open>Math.sqrt(2)\<close> returns the
  tolerance itself, the test \<^verbatim>\<open>diff < tolerance\<close> fails, and the pixel stays opaque.
\<close>

theorem exact_distance_counterexample:
  "doubleRounding (roundDouble envSqrt2)
   \<and> loadImage envSqrt2 ''data:image/jpeg;base64,R0VO'' = Some nearWhite
   \<and> data nearWhite = [254, 254, 255, 255]
   \<and> sqrt ((real (unat (254 :: 8 word)) - targetR)\<^sup>2 + (real (unat (254 :: 8 word)) - targetG)\<^sup>2
          + (real (unat (255 :: 8 word)) - targetB)\<^sup>2) < sqrt2Double
   \<and> removeBackgroundPixels (roundDouble envSqrt2) sqrt2Double nearWhite = nearWhite
   \<and> removeBackground envSqrt2 ''data:image/jpeg;base64,R0VO'' sqrt2Double
       = Resolved ''data:image/png;base64,a2VwdA==''
   \<and> pngDataURL envSqrt2 nearWhite = ''data:image/png;base64,a2VwdA==''
   \<and> data (removeBackgroundPixels (roundDouble envSqrt2) sqrt2Double nearWhite) ! 3 = 255"
proof -
  have r: "roundDouble envSqrt2 = roundAs [(sqrt 2, sqrt2Double)]"
    by (simp add: envSqrt2_def)
  have p: "pngDataURL envSqrt2 nearWhite = ''data:image/png;base64,a2VwdA==''"
    by (simp add: envSqrt2_def nearWhite_def)
  have l: "loadImage envSqrt2 u = Some nearWhite" "getContext envSqrt2" for u
    by (simp_all add: envSqrt2_def env0_def)
  have rb: "removeBackground envSqrt2 ''data:image/jpeg;base64,R0VO'' sqrt2Double
       = Resolved ''data:image/png;base64,a2VwdA==''"
    unfolding removeBackground_def using l p by (simp add: r nearWhite_kept)
  show ?thesis
    unfolding r nearWhite_kept nearWhite_distance
    using doubleRounding_sqrt2 sqrt2_below l(1) rb[unfolded r] p
    by (simp add: nearWhite_def)
qed

section \<open>The size of the resized image\<close>

lemma resizedSize_wide:
  assumes "w > h" "w > m"
  shows "resizedSize rnd w h m = (m, nat \<lfloor>rnd (real h * rnd (real m / real w))\<rfloor>)"
  using assms by (simp add: resizedSize_def scaledSize_def canvasSize_def)

lemma resizedSize_tall:
  assumes "\<not> w > h" "h > m"
  shows "resizedSize rnd w h m = (nat \<lfloor>rnd (real w * rnd (real m / real h))\<rfloor>, m)"
  using assms by (simp add: resizedSize_def scaledSize_def canvasSize_def)

lemma resizedSize_within:
  assumes "max w h \<le> m"
  shows "resizedSize rnd w h m = (w, h)"
  using assms by (simp add: resizedSize_def scaledSize_def canvasSize_def)

text \<open>
  Claim C6. For a file that the reader reads, holding an image that loads, of \<open>w\<close>
  by \<open>h\<close> pixels, each side below \<open>2\<^sup>2\<^sup>6\<close>, on a canvas that gives a context, and
  for the bound \<open>m\<close>: \<^verbatim>\<open>resizeImage\<close> resolves with the JPEG of a canvas neither side of
  which exceeds \<open>m\<close>; each side of the canvas is at most one pixel away from the side of
  the image times one common factor, which is at most 1; and when the image is within the
  bound the factor is 1 and the canvas has the size of the image.
\<close>

theorem resizeImage_size:
  assumes "doubleRounding (roundDouble env)"
    and "readAsDataURL env f = Some url" and "loadImage env url = Some img" and "getContext env"
    and "width img < 2 ^ 26" and "height img < 2 ^ 26"
  shows "let w = width img; h = height img;
             outW = fst (resizedSize (roundDouble env) w h m);
             outH = snd (resizedSize (roundDouble env) w h m)
         in resizeImage env f m = Resolved (base64Of (jpegDataURL env img outW outH), ''image/jpeg'')
          \<and> max outW outH \<le> m
          \<and> \<bar>real outW - scaleFactor w h m * real w\<bar> \<le> 1
          \<and> \<bar>real outH - scaleFactor w h m * real h\<bar> \<le> 1
          \<and> scaleFactor w h m \<le> 1
          \<and> (max w h \<le> m \<longrightarrow> scaleFactor w h m = 1 \<and> outW = w \<and> outH = h)"
proof -
  let ?w = "width img" and ?h = "height img" and ?rnd = "roundDouble env"
  have out: "resizeImage env f m =
      Resolved (base64Of (jpegDataURL env img (fst (resizedSize ?rnd ?w ?h m))
                  (snd (resizedSize ?rnd ?w ?h m))), ''image/jpeg'')"
    using assms(2,3,4) by (simp add: resizeImage_def Let_def base64Of_def)
  consider (within) "max ?w ?h \<le> m" | (wide) "?w > ?h" "?w > m" | (tall) "\<not> ?w > ?h" "?h > m"
    by linarith
  then have "max (fst (resizedSize ?rnd ?w ?h m)) (snd (resizedSize ?rnd ?w ?h m)) \<le> m
   \<and> \<bar>real (fst (resizedSize ?rnd ?w ?h m)) - scaleFactor ?w ?h m * real ?w\<bar> \<le> 1
   \<and> \<bar>real (snd (resizedSize ?rnd ?w ?h m)) - scaleFactor ?w ?h m * real ?h\<bar> \<le> 1
   \<and> scaleFactor ?w ?h m \<le> 1
   \<and> (max ?w ?h \<le> m \<longrightarrow> scaleFactor ?w ?h m = 1 \<and> resizedSize ?rnd ?w ?h m = (?w, ?h))"
  proof cases
    case within
    then show ?thesis by (simp add: resizedSize_within scaleFactor_def)
  next
    case wide
    then have s: "scaleFactor ?w ?h m = real m / real ?w" by (simp add: scaleFactor_def)
    have hw: "?h \<le> ?w" using wide by simp
    show ?thesis
      unfolding resizedSize_wide[OF wide] s
      using floor_rounded_scale[OF assms(1) hw wide(2) assms(5)] wide by simp
  next
    case tall
    then have s: "scaleFactor ?w ?h m = real m / real ?h" by (simp add: scaleFactor_def max_def)
    have wh: "?w \<le> ?h" using tall by simp
    show ?thesis
      unfolding resizedSize_tall[OF tall] s
      using floor_rounded_scale[OF assms(1) wh tall(2) assms(6)] tall by simp
  qed
  then show ?thesis unfolding Let_def using out by simp
qed

subsection \<open>Three images resized\<close>

lemma doubleRounding_sizes: "doubleRounding (roundAs sizeDoubles)"
  by (rule doubleRounding_roundAs) (simp add: sizeDoubles_def)

lemma photo_resized: "resizedSize (roundAs sizeDoubles) 2000 1000 1024 = (1024, 512)"
  by (simp add: resizedSize_def scaledSize_def canvasSize_def roundAs_def sizeDoubles_def)

lemma snapshot_resized: "resizedSize (roundAs sizeDoubles) 1122 561 1024 = (1024, 511)"
  by (simp add: resizedSize_def scaledSize_def canvasSize_def roundAs_def sizeDoubles_def)

lemma envShowing_simps:
  "roundDouble (envShowing img) = roundAs sizeDoubles"
  "readAsDataURL (envShowing img) f = Some ''data:image/png;base64,SU4=''"
  "loadImage (envShowing img) u = Some img"
  "getContext (envShowing img)"
  "jpegDataURL (envShowing img) i w h = ''data:image/jpeg;base64,'' @ sizeTag w h"
  by (simp_all add: envShowing_def env0_def)

lemma sizes_simps:
  "width photo = 2000" "height photo = 1000"
  "width snapshot = 1122" "height snapshot = 561"
  "width thumbnail = 800" "height thumbnail = 600"
  by (simp_all add: photo_def snapshot_def thumbnail_def)

lemma base64Of_tag:
  "base64Of (''data:image/jpeg;base64,'' @ ''MTAyNHg1MTI='') = Some ''MTAyNHg1MTI=''"
  "base64Of (''data:image/jpeg;base64,'' @ ''MTAyNHg1MTE='') = Some ''MTAyNHg1MTE=''"
  "base64Of (''data:image/jpeg;base64,'' @ ''ODAweDYwMA=='') = Some ''ODAweDYwMA==''"
  by (simp_all add: base64Of_def split_def item_def)

text \<open>
  An image of 2000 by 1000 is resized to 1024 by 512. For one of 1122 by 561 the product
  that is 512 in exact arithmetic rounds to the double just below 512, and the canvas is
  511 rows high. An image of 800 by 600 keeps its size.
\<close>

theorem resizeImage_size_witness:
  "doubleRounding (roundDouble (envShowing photo))
   \<and> readAsDataURL (envShowing photo) file0 = Some ''data:image/png;base64,SU4=''
   \<and> loadImage (envShowing photo) ''data:image/png;base64,SU4='' = Some photo
   \<and> loadImage (envShowing snapshot) ''data:image/png;base64,SU4='' = Some snapshot
   \<and> loadImage (envShowing thumbnail) ''data:image/png;base64,SU4='' = Some thumbnail
   \<and> getContext (envShowing photo)
   \<and> width photo < 2 ^ 26 \<and> height photo < 2 ^ 26
   \<and> resizeImage (envShowing photo) file0 1024 = Resolved (Some ''MTAyNHg1MTI='', ''image/jpeg'')
   \<and> resizedSize (roundDouble (envShowing photo)) (width photo) (height photo) 1024 = (1024, 512)
   \<and> resizeImage (envShowing snapshot) file0 1024 = Resolved (Some ''MTAyNHg1MTE='', ''image/jpeg'')
   \<and> resizedSize (roundDouble (envShowing snapshot)) (width snapshot) (height snapshot) 1024
       = (1024, 511)
   \<and> \<bar>real (511::nat) - scaleFactor 1122 561 1024 * real (561::nat)\<bar> \<le> 1
   \<and> max (width thumbnail) (height thumbnail) \<le> 1024
   \<and> resizeImage (envShowing thumbnail) file0 1024 = Resolved (Some ''ODAweDYwMA=='', ''image/jpeg'')"
proof -
  have b: "(2000::nat) < 2 ^ 26" "(1000::nat) < 2 ^ 26" "(1122::nat) < 2 ^ 26"
    "(561::nat) < 2 ^ 26" "(800::nat) < 2 ^ 26" "(600::nat) < 2 ^ 26"
    by simp_all
  have r: "doubleRounding (roundDouble (envShowing i))" for i
    using doubleRounding_sizes by (simp add: envShowing_simps)
  note t1 = resizeImage_size[of "envShowing photo" file0 "''data:image/png;base64,SU4=''" photo 1024]
  note t2 = resizeImage_size[of "envShowing snapshot" file0 "''data:image/png;base64,SU4=''"
      snapshot 1024]
  note t3 = resizeImage_size[of "envShowing thumbnail" file0 "''data:image/png;base64,SU4=''"
      thumbnail 1024]
  show ?thesis
    using t1 t2 t3 r b
    by (simp add: envShowing_simps sizes_simps photo_resized snapshot_resized Let_def
          sizeTag_def base64Of_tag[simplified])
qed

section \<open>What each handler leaves alone\<close>

lemma resizeImage_mime: "resizeImage env f n = Resolved (b, m) \<Longrightarrow> m = ''image/jpeg''"
  by (auto simp: resizeImage_def Let_def split: option.splits if_splits)

lemma handleEmbroideryTransform_frame:
  "mimeType (final (handleEmbroideryTransform env s)) = mimeType s"
  "originalImage (final (handleEmbroideryTransform env s)) = originalImage s"
  by (simp_all add: handleEmbroideryTransform_def updateHistory_def Let_def
        split: option.splits promise.splits)

lemma handleMagicEdit_frame:
  "mimeType (final (handleMagicEdit env s)) = mimeType s"
  "originalImage (final (handleMagicEdit env s)) = originalImage s"
  by (simp_all add: handleMagicEdit_def updateHistory_def Let_def
        split: option.splits promise.splits)

lemma handleUpscale_frame:
  "mimeType (final (handleUpscale env s)) = mimeType s"
  "originalImage (final (handleUpscale env s)) = originalImage s"
  by (simp_all add: handleUpscale_def updateHistory_def Let_def
        split: option.splits promise.splits)

lemma handleUndo_frame:
  "mimeType (handleUndo s) = mimeType s"
  "originalImage (handleUndo s) = originalImage s"
  "status (handleUndo s) = status s"
  "requests (handleUndo s) = requests s"
  by (simp_all add: handleUndo_def Let_def)

lemma handleReset_frame:
  "mimeType (handleReset s) = mimeType s"
  "originalImage (handleReset s) = originalImage s"
  "status (handleReset s) = status s"
  "requests (handleReset s) = requests s"
  by (simp_all add: handleReset_def Let_def)

lemma handleImageSelect_frame:
  assumes "keepsSession (ImageSelect env f)"
  shows "mimeType (final (handleImageSelect env f s)) = mimeType s"
    and "originalImage (final (handleImageSelect env f s)) = originalImage s"
    and "history (final (handleImageSelect env f s)) = history s"
    and "currentImage (final (handleImageSelect env f s)) = currentImage s"
  using assms by (simp_all add: handleImageSelect_def Let_def split: promise.splits)

lemma handleImageSelect_success:
  assumes "resizeImage env f 1024 = Resolved (b, m)"
  shows "handleImageSelect env f s =
     Returned (s\<lparr>status := Idle, error := None, originalImage := b,
       previewImage := Some (''data:'' @ m @ '';base64,'' @ tmpl b),
       currentImage := Some (''data:'' @ m @ '';base64,'' @ tmpl b),
       mimeType := m, history := [''data:'' @ m @ '';base64,'' @ tmpl b]\<rparr>)"
  using assms by (simp add: handleImageSelect_def Let_def)

lemma handleImageSelect_requests:
  "requests (final (handleImageSelect env f s)) = requests s"
  by (simp add: handleImageSelect_def Let_def split: promise.splits)

lemma handleImageSelect_mime:
  "mimeType (final (handleImageSelect env f s)) = mimeType s
   \<or> mimeType (final (handleImageSelect env f s)) = ''image/jpeg''"
  using resizeImage_mime[of env f 1024]
  by (auto simp: handleImageSelect_def Let_def split: promise.splits)

section \<open>The history and the current image\<close>

lemma grows_refl: "history s' = history s \<Longrightarrow> currentImage s' = currentImage s \<Longrightarrow> grows s s'"
  by (simp add: grows_def)

lemma grows_append: "grows s ((updateHistory u s')\<lparr>status := c\<rparr>)" if "history s' = history s"
  using that by (simp add: grows_def updateHistory_def)

lemma grows_append2:
  "grows s ((updateHistory u s')\<lparr>status := c, editPrompt := p\<rparr>)" if "history s' = history s"
  using that by (simp add: grows_def updateHistory_def)

lemma handleEmbroideryTransform_grows: "grows s (final (handleEmbroideryTransform env s))"
  unfolding handleEmbroideryTransform_def Let_def
  by (auto split: option.splits promise.splits intro!: grows_refl grows_append)

lemma handleMagicEdit_grows: "grows s (final (handleMagicEdit env s))"
  unfolding handleMagicEdit_def Let_def
  by (auto split: option.splits promise.splits intro!: grows_refl grows_append2)

lemma handleUpscale_grows: "grows s (final (handleUpscale env s))"
  unfolding handleUpscale_def Let_def
  by (auto split: option.splits promise.splits intro!: grows_refl grows_append)

lemma grows_invariant: "grows s s' \<Longrightarrow> sessionInvariant s \<Longrightarrow> sessionInvariant s'"
  by (auto simp: grows_def sessionInvariant_def)

lemma item_last: "xs \<noteq> [] \<Longrightarrow> item xs (length xs - 1) = Some (last xs)"
  by (simp add: item_def last_conv_nth)

lemma butlast_nonempty: "length xs > 1 \<Longrightarrow> butlast xs \<noteq> []"
  by (cases xs rule: rev_cases) auto

lemma handleUndo_long:
  assumes "length (history s) > 1"
  shows "handleUndo s =
    s\<lparr>history := butlast (history s), currentImage := Some (last (butlast (history s)))\<rparr>"
  using assms item_last[OF butlast_nonempty[OF assms]]
  by (simp add: handleUndo_def Let_def)

lemma handleUndo_short: "\<not> length (history s) > 1 \<Longrightarrow> handleUndo s = s"
  by (simp add: handleUndo_def)

lemma handleUndo_invariant: "sessionInvariant s \<Longrightarrow> sessionInvariant (handleUndo s)"
proof (cases "length (history s) > 1")
  case True
  assume "sessionInvariant s"
  show ?thesis
    using butlast_nonempty[OF True] by (simp add: handleUndo_long[OF True] sessionInvariant_def)
next
  case False
  assume "sessionInvariant s"
  then show ?thesis using False by (simp add: handleUndo_short)
qed

lemma handleReset_invariant: "sessionInvariant s \<Longrightarrow> sessionInvariant (handleReset s)"
  by (simp add: handleReset_def sessionInvariant_def Let_def)

lemma handleImageSelect_invariant:
  "sessionInvariant s \<Longrightarrow> sessionInvariant (final (handleImageSelect env f s))"
  by (simp add: handleImageSelect_def sessionInvariant_def Let_def split: promise.splits)

lemma handleImageSelect_establishes:
  "resizeImage env f 1024 = Resolved r \<Longrightarrow>
   sessionInvariant (final (handleImageSelect env f s))"
  by (cases r) (simp add: handleImageSelect_def sessionInvariant_def Let_def)

lemma step_invariant: "sessionInvariant s \<Longrightarrow> sessionInvariant (step ev s)"
proof (cases ev)
  case (ImageSelect env f)
  then show "sessionInvariant s \<Longrightarrow> ?thesis" by (simp add: handleImageSelect_invariant)
next
  case (EmbroideryTransform env)
  then show "sessionInvariant s \<Longrightarrow> ?thesis"
    using grows_invariant[OF handleEmbroideryTransform_grows] by simp
next
  case (MagicEdit env)
  then show "sessionInvariant s \<Longrightarrow> ?thesis"
    using grows_invariant[OF handleMagicEdit_grows] by simp
next
  case (Upscale env)
  then show "sessionInvariant s \<Longrightarrow> ?thesis"
    using grows_invariant[OF handleUpscale_grows] by simp
next
  case Undo
  then show "sessionInvariant s \<Longrightarrow> ?thesis" by (simp add: handleUndo_invariant)
next
  case Reset
  then show "sessionInvariant s \<Longrightarrow> ?thesis" by (simp add: handleReset_invariant)
next
  case (SetEditPrompt t)
  then show "sessionInvariant s \<Longrightarrow> ?thesis" by (simp add: sessionInvariant_def)
next
  case DismissError
  then show "sessionInvariant s \<Longrightarrow> ?thesis" by (simp add: sessionInvariant_def)
qed

lemma run_invariant: "sessionInvariant s \<Longrightarrow> sessionInvariant (run evs s)"
  by (induction evs arbitrary: s) (simp_all add: step_invariant)

text \<open>
  Claim C3. After an upload that succeeds, and after any sequence of events that follows
  it, the history is not empty and the current image is its last entry; each of the six
  operations, with whatever the collaborators answer, keeps this. A handler that waits on
  a promise leaves the state it has reached as its outcome, so the states shown while an
  operation is in flight are covered too.
\<close>

theorem history_invariant:
  "(resizeImage env f 1024 = Resolved r \<longrightarrow>
      sessionInvariant (final (handleImageSelect env f s0))
      \<and> sessionInvariant (run evs (final (handleImageSelect env f s0))))
   \<and> (sessionInvariant s \<longrightarrow>
        sessionInvariant (final (handleImageSelect env' f' s))
      \<and> sessionInvariant (final (handleEmbroideryTransform env' s))
      \<and> sessionInvariant (final (handleMagicEdit env' s))
      \<and> sessionInvariant (final (handleUpscale env' s))
      \<and> sessionInvariant (handleUndo s)
      \<and> sessionInvariant (handleReset s))"
proof (intro conjI impI)
  assume r: "resizeImage env f 1024 = Resolved r"
  show a: "sessionInvariant (final (handleImageSelect env f s0))"
    by (rule handleImageSelect_establishes[OF r])
  show "sessionInvariant (run evs (final (handleImageSelect env f s0)))"
    by (rule run_invariant[OF a])
next
  assume i: "sessionInvariant s"
  show "sessionInvariant (final (handleImageSelect env' f' s))"
    by (rule handleImageSelect_invariant[OF i])
  show "sessionInvariant (final (handleEmbroideryTransform env' s))"
    by (rule grows_invariant[OF handleEmbroideryTransform_grows i])
  show "sessionInvariant (final (handleMagicEdit env' s))"
    by (rule grows_invariant[OF handleMagicEdit_grows i])
  show "sessionInvariant (final (handleUpscale env' s))"
    by (rule grows_invariant[OF handleUpscale_grows i])
  show "sessionInvariant (handleUndo s)" by (rule handleUndo_invariant[OF i])
  show "sessionInvariant (handleReset s)" by (rule handleReset_invariant[OF i])
qed

section \<open>The example session\<close>

lemma base64Of_jpeg: "base64Of ''data:image/jpeg;base64,SlBH'' = Some ''SlBH''"
  by (simp add: base64Of_def item_def split_def)

lemma base64Of_png: "base64Of ''data:image/png;base64,UE5H'' = Some ''UE5H''"
  by (simp add: base64Of_def item_def split_def)

lemma resizeImage_env0: "resizeImage env0 file0 1024 = Resolved (Some ''SlBH'', ''image/jpeg'')"
  using base64Of_jpeg by (simp add: resizeImage_def env0_def Let_def base64Of_def)

lemma uploaded_eq:
  "uploaded =
     \<lparr>status = Idle, originalImage = Some ''SlBH'',
      currentImage = Some ''data:image/jpeg;base64,SlBH'',
      previewImage = Some ''data:image/jpeg;base64,SlBH'', editPrompt = [],
      mimeType = ''image/jpeg'', error = None,
      history = [''data:image/jpeg;base64,SlBH''], requests = []\<rparr>"
  by (simp add: uploaded_def handleImageSelect_def resizeImage_env0 initialState_def tmpl_def Let_def)

lemma callModel_env0: "callModel (generateContent env0) r = Resolved ''R0VO''"
  by (simp add: callModel_def env0_def reply0_def extractImageFromResponse_def)

lemma callModel_envBlind: "callModel (generateContent envBlind) r = Resolved ''R0VO''"
  by (simp add: callModel_def envBlind_def env0_def reply0_def extractImageFromResponse_def)

lemma callModel_envDown:
  "callModel (generateContent envDown) r =
     Rejected (JsError ''No candidates returned from Gemini API'')"
  by (simp add: callModel_def envDown_def env0_def extractImageFromResponse_def)

lemma removeBackground_env0: "removeBackground env0 u t = Resolved ''data:image/png;base64,UE5H''"
  by (simp add: removeBackground_def env0_def)

lemma removeBackground_envBlind: "removeBackground envBlind u t = Rejected ErrorEvent"
  by (simp add: removeBackground_def envBlind_def env0_def)

lemma credentialGate_env0: "credentialGate env0 = Resolved ()"
  by (simp add: credentialGate_def env0_def)

lemma credentialGate_envDown: "credentialGate envDown = Resolved ()"
  by (simp add: credentialGate_def envDown_def env0_def)

lemma trim_hat: "trim (js ''add a hat'') = js ''add a hat''"
  by (simp add: trim_def js_def isWhiteSpace_def)

lemma trim_blank: "trim [0x20, 0x3000, 0x9] = []"
  by (simp add: trim_def isWhiteSpace_def)

lemma stitched_eq:
  "stitched =
     \<lparr>status = Complete, originalImage = Some ''SlBH'',
      currentImage = Some ''data:image/png;base64,UE5H'',
      previewImage = Some ''data:image/jpeg;base64,SlBH'', editPrompt = [],
      mimeType = ''image/jpeg'', error = None,
      history = [''data:image/jpeg;base64,SlBH'', ''data:image/png;base64,UE5H''],
      requests = [embroideryRequest (Some ''SlBH'') ''image/jpeg'']\<rparr>"
  unfolding stitched_def uploaded_eq
  by (simp add: handleEmbroideryTransform_def generateEmbroidery_def callModel_env0
        removeBackground_env0 base64Of_jpeg truthy_def updateHistory_def Let_def)

lemma failed_eq:
  "failed =
     \<lparr>status = Error, originalImage = Some ''SlBH'',
      currentImage = Some ''data:image/jpeg;base64,SlBH'',
      previewImage = Some ''data:image/jpeg;base64,SlBH'', editPrompt = [],
      mimeType = ''image/jpeg'',
      error = Some ''Something went wrong during the transformation. Please try again.'',
      history = [''data:image/jpeg;base64,SlBH''],
      requests = [embroideryRequest (Some ''SlBH'') ''image/jpeg'']\<rparr>"
  unfolding failed_def uploaded_eq
  by (simp add: handleEmbroideryTransform_def generateEmbroidery_def callModel_envDown
        base64Of_jpeg truthy_def Let_def)

lemma retry_eq:
  "handleEmbroideryTransform env0 failed =
     Returned
       \<lparr>status = Complete, originalImage = Some ''SlBH'',
        currentImage = Some ''data:image/png;base64,UE5H'',
        previewImage = Some ''data:image/jpeg;base64,SlBH'', editPrompt = [],
        mimeType = ''image/jpeg'', error = None,
        history = [''data:image/jpeg;base64,SlBH'', ''data:image/png;base64,UE5H''],
        requests = [embroideryRequest (Some ''SlBH'') ''image/jpeg'',
                    embroideryRequest (Some ''SlBH'') ''image/jpeg'']\<rparr>"
  unfolding failed_eq
  by (simp add: handleEmbroideryTransform_def generateEmbroidery_def callModel_env0
        removeBackground_env0 base64Of_jpeg truthy_def updateHistory_def Let_def)

text \<open>The invariant on the example: an upload, then four operations.\<close>

theorem history_invariant_witness:
  "resizeImage env0 file0 1024 = Resolved (Some ''SlBH'', ''image/jpeg'')
   \<and> sessionInvariant uploaded
   \<and> sessionInvariant (run [EmbroideryTransform env0, Undo, MagicEdit envDown, Reset] uploaded)
   \<and> sessionInvariant (final (handleUpscale envDown uploaded))
   \<and> sessionInvariant (handleUndo uploaded)"
  using history_invariant[of env0 file0 "(Some ''SlBH'', ''image/jpeg'')" initialState
      "[EmbroideryTransform env0, Undo, MagicEdit envDown, Reset]" uploaded envDown file0]
    resizeImage_env0
  by (simp add: uploaded_def)

section \<open>The status gate\<close>

text \<open>
  After a failed transformation the status is \<^verbatim>\<open>error\<close>. The handler of the style
  transformation, called in that state, runs all the same: it calls the model, appends
  the result to the history and sets the status to \<^verbatim>\<open>complete\<close>.
\<close>

theorem status_gate_counterexample:
  "status failed = Error
   \<and> status failed \<notin> {Idle, Complete}
   \<and> handleEmbroideryTransform env0 failed \<noteq> Returned failed
   \<and> status (final (handleEmbroideryTransform env0 failed)) = Complete
   \<and> length (history failed) = 1
   \<and> length (history (final (handleEmbroideryTransform env0 failed))) = 2
   \<and> currentImage failed = Some ''data:image/jpeg;base64,SlBH''
   \<and> currentImage (final (handleEmbroideryTransform env0 failed))
       = Some ''data:image/png;base64,UE5H''"
  unfolding retry_eq by (simp add: failed_eq)

lemma returned_requests:
  "handleEmbroideryTransform env s = Returned s' \<Longrightarrow>
     truthy (currentImage s) \<Longrightarrow> truthy (originalImage s) \<Longrightarrow>
     length (requests s') = Suc (length (requests s))"
  "handleMagicEdit env s = Returned s' \<Longrightarrow>
     truthy (currentImage s) \<Longrightarrow> trim (editPrompt s) \<noteq> [] \<Longrightarrow>
     length (requests s') = Suc (length (requests s))"
  "handleUpscale env s = Returned s' \<Longrightarrow>
     truthy (currentImage s) \<Longrightarrow>
     length (requests s') = Suc (length (requests s))"
  by (auto simp: handleEmbroideryTransform_def handleMagicEdit_def handleUpscale_def
        truthy_def updateHistory_def Let_def
        split: option.splits promise.splits if_splits)

lemma guard_fails_returns:
  "\<not> truthy (currentImage s) \<or> \<not> truthy (originalImage s) \<Longrightarrow>
     handleEmbroideryTransform env s = Returned s"
  "\<not> truthy (currentImage s) \<or> trim (editPrompt s) = [] \<Longrightarrow>
     handleMagicEdit env s = Returned s"
  "\<not> truthy (currentImage s) \<Longrightarrow> handleUpscale env s = Returned s"
  by (auto simp: handleEmbroideryTransform_def handleMagicEdit_def handleUpscale_def
        truthy_def split: option.splits)

lemma status_not_read:
  "truthy (currentImage s) \<and> truthy (originalImage s) \<Longrightarrow>
     handleEmbroideryTransform env (s\<lparr>status := c\<rparr>) = handleEmbroideryTransform env s"
  "truthy (currentImage s) \<and> trim (editPrompt s) \<noteq> [] \<Longrightarrow>
     handleMagicEdit env (s\<lparr>status := c\<rparr>) = handleMagicEdit env s"
  "truthy (currentImage s) \<and> credentialGate env = Resolved () \<Longrightarrow>
     handleUpscale env (s\<lparr>status := c\<rparr>) = handleUpscale env s"
  by (auto simp: handleEmbroideryTransform_def handleMagicEdit_def handleUpscale_def
        truthy_def updateHistory_def Let_def
        split: option.splits promise.splits)

lemma button_out_of_gate:
  assumes "status s \<noteq> Idle \<and> status s \<noteq> Complete"
  shows "press env EmbroideryButton s = Returned s"
    and "press env MagicEditButton s = Returned s"
    and "press env UpscaleButton s = Returned s"
  using assms by (simp_all add: press_def)

text \<open>
  Claim C1, as the code has it. The gate is on the buttons: while the status is neither
  \<^verbatim>\<open>idle\<close> nor \<^verbatim>\<open>complete\<close>, the buttons of the three operations are disabled and a
  press changes nothing. The handlers do not read the status. A handler returns with the
  state untouched exactly when its own guard fails: when there is no current image, for
  the style transformation also when there is no original image, and for the text-guided
  edit also when the trimmed prompt is empty. When its guard holds (and, for the
  upscaling, the check for an API key passes), what the handler does is the same
  whatever the status is. An upscaling whose check for an API key rejects or never
  settles does not return; the statement says nothing of it.
\<close>

theorem status_gate_on_controls:
  "(status s \<noteq> Idle \<and> status s \<noteq> Complete \<longrightarrow>
      press env EmbroideryButton s = Returned s
      \<and> press env MagicEditButton s = Returned s
      \<and> press env UpscaleButton s = Returned s)
   \<and> (handleEmbroideryTransform env s = Returned s
        \<longleftrightarrow> \<not> truthy (currentImage s) \<or> \<not> truthy (originalImage s))
   \<and> (handleMagicEdit env s = Returned s
        \<longleftrightarrow> \<not> truthy (currentImage s) \<or> trim (editPrompt s) = [])
   \<and> (handleUpscale env s = Returned s \<longleftrightarrow> \<not> truthy (currentImage s))
   \<and> (truthy (currentImage s) \<and> truthy (originalImage s) \<longrightarrow>
        handleEmbroideryTransform env (s\<lparr>status := c\<rparr>) = handleEmbroideryTransform env s)
   \<and> (truthy (currentImage s) \<and> trim (editPrompt s) \<noteq> [] \<longrightarrow>
        handleMagicEdit env (s\<lparr>status := c\<rparr>) = handleMagicEdit env s)
   \<and> (truthy (currentImage s) \<and> credentialGate env = Resolved () \<longrightarrow>
        handleUpscale env (s\<lparr>status := c\<rparr>) = handleUpscale env s)"
proof -
  have e: "handleEmbroideryTransform env s = Returned s
        \<longleftrightarrow> \<not> truthy (currentImage s) \<or> \<not> truthy (originalImage s)"
    using returned_requests(1)[of env s s] guard_fails_returns(1)[of s env] by auto
  have m: "handleMagicEdit env s = Returned s
        \<longleftrightarrow> \<not> truthy (currentImage s) \<or> trim (editPrompt s) = []"
    using returned_requests(2)[of env s s] guard_fails_returns(2)[of s env] by auto
  have u: "handleUpscale env s = Returned s \<longleftrightarrow> \<not> truthy (currentImage s)"
    using returned_requests(3)[of env s s] guard_fails_returns(3)[of s env] by auto
  show ?thesis
    using e m u button_out_of_gate[of s env] status_not_read[of s env c] by blast
qed

text \<open>
  The buttons in the failed state; the handlers there, without an image, and with and
  without a prompt.
\<close>

theorem status_gate_on_controls_witness:
  "status failed \<noteq> Idle \<and> status failed \<noteq> Complete
   \<and> press env0 EmbroideryButton failed = Returned failed
   \<and> press env0 MagicEditButton failed = Returned failed
   \<and> press env0 UpscaleButton failed = Returned failed
   \<and> truthy (currentImage failed) \<and> truthy (originalImage failed)
   \<and> credentialGate env0 = Resolved ()
   \<and> handleEmbroideryTransform env0 failed \<noteq> Returned failed
   \<and> handleUpscale env0 failed \<noteq> Returned failed
   \<and> handleEmbroideryTransform env0 (failed\<lparr>status := Idle\<rparr>)
       = handleEmbroideryTransform env0 failed
   \<and> handleUpscale env0 (failed\<lparr>status := Idle\<rparr>) = handleUpscale env0 failed
   \<and> \<not> truthy (currentImage initialState)
   \<and> handleEmbroideryTransform env0 initialState = Returned initialState
   \<and> handleUpscale env0 initialState = Returned initialState
   \<and> trim (editPrompt uploaded) = []
   \<and> handleMagicEdit env0 uploaded = Returned uploaded
   \<and> truthy (currentImage prompted) \<and> trim (editPrompt prompted) \<noteq> []
   \<and> handleMagicEdit env0 prompted \<noteq> Returned prompted
   \<and> handleMagicEdit env0 (prompted\<lparr>status := Error\<rparr>) = handleMagicEdit env0 prompted"
proof -
  have p: "truthy (currentImage prompted)" "trim (editPrompt prompted) \<noteq> []"
    using trim_hat by (simp_all add: prompted_def uploaded_eq truthy_def js_def)
  show ?thesis
    using status_gate_on_controls[of failed env0 Idle]
      status_gate_on_controls[of initialState env0 Idle]
      status_gate_on_controls[of uploaded env0 Idle]
      status_gate_on_controls[of prompted env0 Error]
      credentialGate_env0 p
    by (simp add: failed_eq initialState_def truthy_def uploaded_eq trim_def)
qed

text \<open>
  The Enter key of the prompt input is not behind the gate: with a current image it runs
  the handler of the text-guided edit in every status.
\<close>

lemma enter_key_runs_handler:
  "truthy (currentImage s) \<Longrightarrow> press env PromptEnterKey s = handleMagicEdit env s"
  by (simp add: press_def)

section \<open>Failures\<close>

lemma embroidery_generation_fails:
  assumes "currentImage s = Some cur" "cur \<noteq> []" "truthy (originalImage s)"
    and "generateEmbroidery env (base64Of cur) (mimeType s) = Rejected e"
  shows "handleEmbroideryTransform env s =
     Returned (s\<lparr>status := Error,
       error := Some ''Something went wrong during the transformation. Please try again.'',
       requests := requests s @ [embroideryRequest (base64Of cur) (mimeType s)]\<rparr>)"
  using assms by (simp add: handleEmbroideryTransform_def Let_def)

lemma embroidery_extraction_fails:
  assumes "currentImage s = Some cur" "cur \<noteq> []" "truthy (originalImage s)"
    and "generateEmbroidery env (base64Of cur) (mimeType s) = Resolved g"
    and "removeBackground env (''data:image/jpeg;base64,'' @ g) 30 = Rejected e"
  shows "handleEmbroideryTransform env s =
     Returned (s\<lparr>status := Error,
       error := Some ''Something went wrong during the transformation. Please try again.'',
       requests := requests s @ [embroideryRequest (base64Of cur) (mimeType s)]\<rparr>)"
  using assms by (simp add: handleEmbroideryTransform_def Let_def)

lemma magicEdit_fails:
  assumes "currentImage s = Some cur" "cur \<noteq> []" "trim (editPrompt s) \<noteq> []"
    and "editImage env (base64Of cur) (mimeType s) (editPrompt s) = Rejected e"
  shows "handleMagicEdit env s =
     Returned (s\<lparr>status := Error,
       error := Some ''Failed to edit image. The prompt might be against safety policies.'',
       requests := requests s @ [editRequest (base64Of cur) (mimeType s) (editPrompt s)]\<rparr>)"
  using assms by (simp add: handleMagicEdit_def Let_def)

lemma upscale_fails:
  assumes "currentImage s = Some cur" "cur \<noteq> []" "credentialGate env = Resolved ()"
    and "upscaleImage env (base64Of cur) (mimeType s) = Rejected e"
  shows "handleUpscale env s =
     Returned (s\<lparr>status := Error,
       error := Some (''Failed to upscale image. Ensure you have a valid API key '' @
                      ''selected for the Pro model.''),
       requests := requests s @ [upscaleRequest (base64Of cur) (mimeType s)]\<rparr>)"
  using assms by (simp add: handleUpscale_def Let_def)

text \<open>
  The two awaits of the key check stand outside the \<^verbatim>\<open>try\<close> block: a rejection there
  leaves \<^verbatim>\<open>handleUpscale\<close> uncaught, before any state is written.
\<close>

lemma upscale_gate_rejects:
  assumes "currentImage s = Some cur" "cur \<noteq> []" "credentialGate env = Rejected e"
  shows "handleUpscale env s = Threw e s"
  using assms by (simp add: handleUpscale_def)

text \<open>
  Claim C2. When an operation has an image to work on and the generative call rejects, or
  (in the style transformation) the generative call resolves and the background removal
  rejects, the handler returns: nothing is thrown out of it. The state it returns has the
  status \<^verbatim>\<open>error\<close> and the message of that operation, and the history and the current
  image are those from before the operation.
\<close>

theorem failure_sets_error:
  assumes "currentImage s = Some cur" and "cur \<noteq> []"
  shows
   "(truthy (originalImage s) \<and>
       (generateEmbroidery env (base64Of cur) (mimeType s) = Rejected e
        \<or> (generateEmbroidery env (base64Of cur) (mimeType s) = Resolved g
           \<and> removeBackground env (''data:image/jpeg;base64,'' @ g) 30 = Rejected e)) \<longrightarrow>
       (\<exists>s'. handleEmbroideryTransform env s = Returned s' \<and> status s' = Error
          \<and> error s' = Some ''Something went wrong during the transformation. Please try again.''
          \<and> history s' = history s \<and> currentImage s' = currentImage s))
    \<and> (trim (editPrompt s) \<noteq> [] \<and>
         editImage env (base64Of cur) (mimeType s) (editPrompt s) = Rejected e \<longrightarrow>
       (\<exists>s'. handleMagicEdit env s = Returned s' \<and> status s' = Error
          \<and> error s' = Some ''Failed to edit image. The prompt might be against safety policies.''
          \<and> history s' = history s \<and> currentImage s' = currentImage s))
    \<and> (credentialGate env = Resolved () \<and>
         upscaleImage env (base64Of cur) (mimeType s) = Rejected e \<longrightarrow>
       (\<exists>s'. handleUpscale env s = Returned s' \<and> status s' = Error
          \<and> error s' = Some (''Failed to upscale image. Ensure you have a valid API key '' @
                             ''selected for the Pro model.'')
          \<and> history s' = history s \<and> currentImage s' = currentImage s))"
proof (intro conjI impI)
  assume a: "truthy (originalImage s) \<and>
       (generateEmbroidery env (base64Of cur) (mimeType s) = Rejected e
        \<or> (generateEmbroidery env (base64Of cur) (mimeType s) = Resolved g
           \<and> removeBackground env (''data:image/jpeg;base64,'' @ g) 30 = Rejected e))"
  then have "handleEmbroideryTransform env s =
     Returned (s\<lparr>status := Error,
       error := Some ''Something went wrong during the transformation. Please try again.'',
       requests := requests s @ [embroideryRequest (base64Of cur) (mimeType s)]\<rparr>)"
    using embroidery_generation_fails[OF assms] embroidery_extraction_fails[OF assms] by blast
  then show "\<exists>s'. handleEmbroideryTransform env s = Returned s' \<and> status s' = Error
          \<and> error s' = Some ''Something went wrong during the transformation. Please try again.''
          \<and> history s' = history s \<and> currentImage s' = currentImage s"
    by simp
next
  assume "trim (editPrompt s) \<noteq> [] \<and>
         editImage env (base64Of cur) (mimeType s) (editPrompt s) = Rejected e"
  then have "handleMagicEdit env s =
     Returned (s\<lparr>status := Error,
       error := Some ''Failed to edit image. The prompt might be against safety policies.'',
       requests := requests s @ [editRequest (base64Of cur) (mimeType s) (editPrompt s)]\<rparr>)"
    using magicEdit_fails[OF assms] by blast
  then show "\<exists>s'. handleMagicEdit env s = Returned s' \<and> status s' = Error
          \<and> error s' = Some ''Failed to edit image. The prompt might be against safety policies.''
          \<and> history s' = history s \<and> currentImage s' = currentImage s"
    by simp
next
  assume "credentialGate env = Resolved () \<and>
         upscaleImage env (base64Of cur) (mimeType s) = Rejected e"
  then have "handleUpscale env s =
     Returned (s\<lparr>status := Error,
       error := Some (''Failed to upscale image. Ensure you have a valid API key '' @
                      ''selected for the Pro model.''),
       requests := requests s @ [upscaleRequest (base64Of cur) (mimeType s)]\<rparr>)"
    using upscale_fails[OF assms] by blast
  then show "\<exists>s'. handleUpscale env s = Returned s' \<and> status s' = Error
          \<and> error s' = Some (''Failed to upscale image. Ensure you have a valid API key '' @
                             ''selected for the Pro model.'')
          \<and> history s' = history s \<and> currentImage s' = currentImage s"
    by simp
qed

text \<open>
  A model without candidates fails each of the three operations; images that do not load
  fail the background removal.
\<close>

theorem failure_sets_error_witness:
  "currentImage uploaded = Some ''data:image/jpeg;base64,SlBH''
   \<and> truthy (originalImage uploaded)
   \<and> generateEmbroidery envDown (Some ''SlBH'') ''image/jpeg''
       = Rejected (JsError ''No candidates returned from Gemini API'')
   \<and> status (final (handleEmbroideryTransform envDown uploaded)) = Error
   \<and> history (final (handleEmbroideryTransform envDown uploaded)) = history uploaded
   \<and> generateEmbroidery envBlind (Some ''SlBH'') ''image/jpeg'' = Resolved ''R0VO''
   \<and> removeBackground envBlind ''data:image/jpeg;base64,R0VO'' 30 = Rejected ErrorEvent
   \<and> status (final (handleEmbroideryTransform envBlind uploaded)) = Error
   \<and> history (final (handleEmbroideryTransform envBlind uploaded)) = history uploaded
   \<and> trim (editPrompt prompted) \<noteq> []
   \<and> status (final (handleMagicEdit envDown prompted)) = Error
   \<and> history (final (handleMagicEdit envDown prompted)) = history prompted
   \<and> credentialGate envDown = Resolved ()
   \<and> status (final (handleUpscale envDown uploaded)) = Error
   \<and> history (final (handleUpscale envDown uploaded)) = history uploaded"
proof -
  let ?cur = "''data:image/jpeg;base64,SlBH''"
  let ?e = "JsError ''No candidates returned from Gemini API''"
  have cur: "currentImage uploaded = Some ?cur" "?cur \<noteq> []"
    and curp: "currentImage prompted = Some ?cur"
    and orig: "truthy (originalImage uploaded)"
    and mime: "mimeType uploaded = ''image/jpeg''" "mimeType prompted = ''image/jpeg''"
    and prompt: "editPrompt prompted = js ''add a hat''"
    by (simp_all add: uploaded_eq prompted_def truthy_def)
  have tr: "trim (editPrompt prompted) \<noteq> []"
    unfolding prompt trim_hat by (simp add: js_def)
  have g1: "generateEmbroidery envDown (Some ''SlBH'') ''image/jpeg'' = Rejected ?e"
    by (simp add: generateEmbroidery_def callModel_envDown)
  have g2: "generateEmbroidery envBlind (Some ''SlBH'') ''image/jpeg'' = Resolved ''R0VO''"
    by (simp add: generateEmbroidery_def callModel_envBlind)
  have r2: "removeBackground envBlind (''data:image/jpeg;base64,'' @ ''R0VO'') 30 = Rejected ErrorEvent"
    by (rule removeBackground_envBlind)
  have g3: "editImage envDown (Some ''SlBH'') ''image/jpeg'' (js ''add a hat'') = Rejected ?e"
    by (simp add: editImage_def callModel_envDown)
  have g4: "upscaleImage envDown (Some ''SlBH'') ''image/jpeg'' = Rejected ?e"
    by (simp add: upscaleImage_def callModel_envDown)
  note t1 = failure_sets_error[OF cur, of envDown ?e "''''"]
  note t2 = failure_sets_error[OF cur, of envBlind ErrorEvent "''R0VO''"]
  note t3 = failure_sets_error[OF curp cur(2), of envDown ?e "''''"]
  have a1: "status (final (handleEmbroideryTransform envDown uploaded)) = Error
     \<and> history (final (handleEmbroideryTransform envDown uploaded)) = history uploaded"
    using t1 orig g1 unfolding mime base64Of_jpeg by auto
  have a2: "status (final (handleEmbroideryTransform envBlind uploaded)) = Error
     \<and> history (final (handleEmbroideryTransform envBlind uploaded)) = history uploaded"
    using t2 orig g2 r2 unfolding mime base64Of_jpeg by auto
  have a3: "status (final (handleMagicEdit envDown prompted)) = Error
     \<and> history (final (handleMagicEdit envDown prompted)) = history prompted"
    using t3 tr g3 unfolding mime base64Of_jpeg prompt by auto
  have a4: "status (final (handleUpscale envDown uploaded)) = Error
     \<and> history (final (handleUpscale envDown uploaded)) = history uploaded"
    using t1 credentialGate_envDown g4 unfolding mime base64Of_jpeg by auto
  show ?thesis
    using cur(1) orig g1 g2 r2 tr credentialGate_envDown a1 a2 a3 a4 by simp
qed

section \<open>Undo\<close>

text \<open>
  Claim C7. The undo control is enabled only while the history has more than one entry
  and the status is \<^verbatim>\<open>idle\<close> or \<^verbatim>\<open>complete\<close>. With more than one entry, undo drops
  the last entry, makes the entry before it the current image and leaves everything else,
  the status included, as it was; with at most one entry it does nothing. A history that
  is not empty stays not empty.
\<close>

theorem undo_removes_last:
  "(length (history s) > 1 \<longrightarrow>
      handleUndo s =
        s\<lparr>history := butlast (history s), currentImage := Some (last (butlast (history s)))\<rparr>
      \<and> history (handleUndo s) @ [last (history s)] = history s
      \<and> status (handleUndo s) = status s)
   \<and> (length (history s) \<le> 1 \<longrightarrow> handleUndo s = s)
   \<and> (length (history s) \<ge> 1 \<longrightarrow> length (history (handleUndo s)) \<ge> 1)
   \<and> (enabled s UndoButton \<longrightarrow> length (history s) > 1 \<and> status s \<in> {Idle, Complete})"
proof (intro conjI impI)
  assume l: "length (history s) > 1"
  show u: "handleUndo s =
        s\<lparr>history := butlast (history s), currentImage := Some (last (butlast (history s)))\<rparr>"
    by (rule handleUndo_long[OF l])
  have "history s \<noteq> []" using l by auto
  then show "history (handleUndo s) @ [last (history s)] = history s"
    unfolding u by simp
  show "status (handleUndo s) = status s" unfolding u by simp
next
  assume "length (history s) \<le> 1"
  then show "handleUndo s = s" by (simp add: handleUndo_short)
next
  assume one: "length (history s) \<ge> 1"
  show "length (history (handleUndo s)) \<ge> 1"
  proof (cases "length (history s) > 1")
    case True
    then show ?thesis by (simp add: handleUndo_long[OF True])
  next
    case False
    then show ?thesis using one by (simp add: handleUndo_short)
  qed
next
  assume "enabled s UndoButton"
  then show "length (history s) > 1" by simp
next
  assume "enabled s UndoButton"
  then show "status s \<in> {Idle, Complete}" by simp
qed

text \<open>Undo after one transformation, and undo straight after the upload.\<close>

theorem undo_removes_last_witness:
  "length (history stitched) > 1
   \<and> history (handleUndo stitched) = [''data:image/jpeg;base64,SlBH'']
   \<and> currentImage (handleUndo stitched) = Some ''data:image/jpeg;base64,SlBH''
   \<and> status (handleUndo stitched) = Complete
   \<and> length (history uploaded) \<le> 1
   \<and> handleUndo uploaded = uploaded
   \<and> length (history (handleUndo (handleUndo stitched))) \<ge> 1
   \<and> enabled stitched UndoButton"
  using undo_removes_last[of stitched] undo_removes_last[of uploaded]
    undo_removes_last[of "handleUndo stitched"]
  by (simp add: stitched_eq uploaded_eq truthy_def)

section \<open>The prompt of the text-guided edit\<close>

text \<open>
  Claim C9. With a prompt that is empty after trimming, the handler of the text-guided edit
  returns the state as it was: the status, the history and the list of requests made are
  unchanged. It goes on only with a current image and a prompt that is not empty after
  trimming, and then it calls the model with the stored MIME type and the prompt.
\<close>

theorem blank_prompt_rejected:
  "(trim (editPrompt s) = [] \<longrightarrow> handleMagicEdit env s = Returned s)
   \<and> (handleMagicEdit env s \<noteq> Returned s \<longrightarrow>
        truthy (currentImage s) \<and> trim (editPrompt s) \<noteq> [])
   \<and> (currentImage s = Some cur \<and> cur \<noteq> [] \<and> trim (editPrompt s) \<noteq> [] \<longrightarrow>
        requests (final (handleMagicEdit env s)) =
          requests s @ [editRequest (base64Of cur) (mimeType s) (editPrompt s)]
        \<and> handleMagicEdit env s \<noteq> Returned s)"
proof (intro conjI impI)
  assume "trim (editPrompt s) = []"
  then show "handleMagicEdit env s = Returned s"
    by (simp add: handleMagicEdit_def split: option.splits)
next
  assume n: "handleMagicEdit env s \<noteq> Returned s"
  then show "truthy (currentImage s)"
    by (auto simp: handleMagicEdit_def truthy_def split: option.splits if_splits)
  show "trim (editPrompt s) \<noteq> []"
    using n by (auto simp: handleMagicEdit_def split: option.splits if_splits)
next
  assume a: "currentImage s = Some cur \<and> cur \<noteq> [] \<and> trim (editPrompt s) \<noteq> []"
  then show r: "requests (final (handleMagicEdit env s)) =
          requests s @ [editRequest (base64Of cur) (mimeType s) (editPrompt s)]"
    by (simp add: handleMagicEdit_def updateHistory_def Let_def split: promise.splits)
  show "handleMagicEdit env s \<noteq> Returned s"
  proof
    assume "handleMagicEdit env s = Returned s"
    then have "requests (final (handleMagicEdit env s)) = requests s" by simp
    then show False using r by simp
  qed
qed

text \<open>A prompt of a space, an ideographic space and a tab; no prompt; a prompt.\<close>

theorem blank_prompt_rejected_witness:
  "trim (editPrompt blank) = []
   \<and> handleMagicEdit env0 blank = Returned blank
   \<and> trim (editPrompt uploaded) = []
   \<and> handleMagicEdit env0 uploaded = Returned uploaded
   \<and> currentImage prompted = Some ''data:image/jpeg;base64,SlBH''
   \<and> trim (editPrompt prompted) = js ''add a hat''
   \<and> requests (final (handleMagicEdit env0 prompted)) =
       [editRequest (Some ''SlBH'') ''image/jpeg'' (js ''add a hat'')]"
proof -
  have b: "trim (editPrompt blank) = []" by (simp add: blank_def trim_blank)
  have u: "trim (editPrompt uploaded) = []" by (simp add: uploaded_eq trim_def)
  have p: "currentImage prompted = Some ''data:image/jpeg;base64,SlBH''"
    "trim (editPrompt prompted) = js ''add a hat''" "mimeType prompted = ''image/jpeg''"
    "requests prompted = []" "editPrompt prompted = js ''add a hat''"
    by (simp_all add: prompted_def uploaded_eq trim_hat)
  have ne: "js ''add a hat'' \<noteq> []" by (simp add: js_def)
  show ?thesis
    using blank_prompt_rejected[of blank env0] blank_prompt_rejected[of uploaded env0]
      blank_prompt_rejected[of prompted env0 "''data:image/jpeg;base64,SlBH''"]
      b u p ne base64Of_jpeg
    by simp
qed

section \<open>Reset\<close>

lemma step_keeps:
  assumes "keepsSession ev"
  shows "originalImage (step ev s) = originalImage s \<and> mimeType (step ev s) = mimeType s"
proof (cases ev)
  case (ImageSelect env f)
  then show ?thesis using assms handleImageSelect_frame[of env f s] by simp
next
  case (EmbroideryTransform env)
  then show ?thesis by (simp add: handleEmbroideryTransform_frame)
next
  case (MagicEdit env)
  then show ?thesis by (simp add: handleMagicEdit_frame)
next
  case (Upscale env)
  then show ?thesis by (simp add: handleUpscale_frame)
next
  case Undo
  then show ?thesis by (simp add: handleUndo_frame)
next
  case Reset
  then show ?thesis by (simp add: handleReset_frame)
next
  case (SetEditPrompt t)
  then show ?thesis by simp
next
  case DismissError
  then show ?thesis by simp
qed

lemma run_keeps:
  "list_all keepsSession evs \<Longrightarrow>
   originalImage (run evs s) = originalImage s \<and> mimeType (run evs s) = mimeType s"
  by (induction evs arbitrary: s) (simp_all add: step_keeps)

lemma grows_rooted: "grows s s' \<Longrightarrow> rooted url s \<Longrightarrow> rooted url s'"
  by (auto simp: grows_def rooted_def)

lemma handleUndo_rooted: "rooted url s \<Longrightarrow> rooted url (handleUndo s)"
proof (cases "length (history s) > 1")
  case True
  assume r: "rooted url s"
  have "hd (butlast (history s)) = hd (history s)"
    using True by (cases "history s") (auto split: if_splits)
  then show ?thesis
    using r butlast_nonempty[OF True] by (simp add: handleUndo_long[OF True] rooted_def)
next
  case False
  assume "rooted url s"
  then show ?thesis using False by (simp add: handleUndo_short)
qed

lemma handleReset_history:
  assumes "originalImage s = Some b" "b \<noteq> []" "mimeType s = m" "m \<noteq> []"
  shows "handleReset s =
     s\<lparr>history := [''data:'' @ m @ '';base64,'' @ b],
       currentImage := Some (''data:'' @ m @ '';base64,'' @ b)\<rparr>"
  using assms by (simp add: handleReset_def truthy_def tmpl_def Let_def)

lemma step_rooted:
  assumes "keepsSession ev" "originalImage s = Some b" "b \<noteq> []" "mimeType s = m" "m \<noteq> []"
    and "rooted (''data:'' @ m @ '';base64,'' @ b) s"
  shows "rooted (''data:'' @ m @ '';base64,'' @ b) (step ev s)"
proof (cases ev)
  case (ImageSelect env f)
  then show ?thesis using assms(1,6) handleImageSelect_frame[of env f s] by (simp add: rooted_def)
next
  case (EmbroideryTransform env)
  then show ?thesis using grows_rooted[OF handleEmbroideryTransform_grows assms(6)] by simp
next
  case (MagicEdit env)
  then show ?thesis using grows_rooted[OF handleMagicEdit_grows assms(6)] by simp
next
  case (Upscale env)
  then show ?thesis using grows_rooted[OF handleUpscale_grows assms(6)] by simp
next
  case Undo
  then show ?thesis using handleUndo_rooted[OF assms(6)] by simp
next
  case Reset
  then show ?thesis by (simp add: handleReset_history[OF assms(2-5)] rooted_def)
next
  case (SetEditPrompt t)
  then show ?thesis using assms(6) by (simp add: rooted_def)
next
  case DismissError
  then show ?thesis using assms(6) by (simp add: rooted_def)
qed

lemma run_rooted:
  assumes "list_all keepsSession evs" "originalImage s = Some b" "b \<noteq> []"
    "mimeType s = m" "m \<noteq> []" "rooted (''data:'' @ m @ '';base64,'' @ b) s"
  shows "rooted (''data:'' @ m @ '';base64,'' @ b) (run evs s)"
  using assms
proof (induction evs arbitrary: s)
  case Nil
  then show ?case by simp
next
  case (Cons ev evs)
  have k: "keepsSession ev" "list_all keepsSession evs" using Cons.prems(1) by simp_all
  have o: "originalImage (step ev s) = Some b" "mimeType (step ev s) = m"
    using step_keeps[OF k(1), of s] Cons.prems by simp_all
  have r: "rooted (''data:'' @ m @ '';base64,'' @ b) (step ev s)"
    by (rule step_rooted[OF k(1) Cons.prems(2-6)])
  show ?case
    using Cons.IH[OF k(2) o(1) Cons.prems(3) o(2) Cons.prems(5) r] by simp
qed

text \<open>
  Claim C8. Take an upload that succeeds with a payload that is not empty, and any events
  after it up to the next upload that succeeds. The stored original and the stored MIME
  type are still those of the upload, the first entry of the history is still the image
  the upload put there, and reset makes that image the only entry of the history and the
  current image, however long the history was. The reset control is enabled only while
  the history has more than one entry.
\<close>

theorem reset_restores_original:
  assumes "resizeImage env f 1024 = Resolved (Some b, m)" and "b \<noteq> []"
    and "list_all keepsSession evs"
    and "s = run evs (final (handleImageSelect env f s0))"
    and "url = ''data:'' @ m @ '';base64,'' @ b"
  shows "history (final (handleImageSelect env f s0)) = [url]
       \<and> originalImage s = Some b \<and> mimeType s = m \<and> hd (history s) = url
       \<and> history (handleReset s) = [url]
       \<and> currentImage (handleReset s) = Some url
       \<and> status (handleReset s) = status s
       \<and> (enabled s ResetButton \<longrightarrow> length (history s) > 1)"
proof -
  let ?s1 = "final (handleImageSelect env f s0)"
  have m: "m = ''image/jpeg''" by (rule resizeImage_mime[OF assms(1)])
  then have mne: "m \<noteq> []" by simp
  have s1: "history ?s1 = [url]" "originalImage ?s1 = Some b" "mimeType ?s1 = m"
    by (simp_all add: handleImageSelect_success[OF assms(1)] assms(5) tmpl_def)
  have root1: "rooted (''data:'' @ m @ '';base64,'' @ b) ?s1"
    using s1(1) by (simp add: rooted_def assms(5))
  have keep: "originalImage s = Some b" "mimeType s = m"
    using run_keeps[OF assms(3), of ?s1] s1 by (simp_all add: assms(4))
  have root: "hd (history s) = url"
    using run_rooted[OF assms(3) s1(2) assms(2) s1(3) mne root1]
    by (simp add: rooted_def assms(4,5))
  have reset: "handleReset s = s\<lparr>history := [url], currentImage := Some url\<rparr>"
    unfolding assms(5) by (rule handleReset_history[OF keep(1) assms(2) keep(2) mne])
  show ?thesis
    using s1(1) keep root by (simp add: reset)
qed

text \<open>Reset after a transformation, a failed upscale and a failed second upload.\<close>

theorem reset_restores_original_witness:
  "resizeImage env0 file0 1024 = Resolved (Some ''SlBH'', ''image/jpeg'')
   \<and> list_all keepsSession [EmbroideryTransform env0, Upscale envDown, ImageSelect envBlind file0]
   \<and> history (run [EmbroideryTransform env0, Upscale envDown, ImageSelect envBlind file0] uploaded)
       = [''data:image/jpeg;base64,SlBH'', ''data:image/png;base64,UE5H'']
   \<and> history (handleReset
         (run [EmbroideryTransform env0, Upscale envDown, ImageSelect envBlind file0] uploaded))
       = [''data:image/jpeg;base64,SlBH'']
   \<and> currentImage (handleReset
         (run [EmbroideryTransform env0, Upscale envDown, ImageSelect envBlind file0] uploaded))
       = Some ''data:image/jpeg;base64,SlBH''"
proof -
  let ?evs = "[EmbroideryTransform env0, Upscale envDown, ImageSelect envBlind file0]"
  have blind: "resizeImage envBlind file0 1024 = Rejected ErrorEvent"
    by (simp add: resizeImage_def envBlind_def env0_def)
  then have k: "list_all keepsSession ?evs" by simp
  have kb: "keepsSession (ImageSelect envBlind file0)" using blind by simp
  have ne: "''SlBH'' \<noteq> []" by simp
  have cur: "currentImage stitched = Some ''data:image/png;base64,UE5H''"
    "''data:image/png;base64,UE5H'' \<noteq> []" "mimeType stitched = ''image/jpeg''"
    by (simp_all add: stitched_eq)
  have up: "upscaleImage envDown (Some ''UE5H'') ''image/jpeg''
      = Rejected (JsError ''No candidates returned from Gemini API'')"
    by (simp add: upscaleImage_def callModel_envDown)
  have h2: "history (final (handleUpscale envDown stitched)) = history stitched"
    using upscale_fails[OF cur(1,2) credentialGate_envDown] up
    unfolding cur(3) base64Of_png by simp
  have h: "history (run ?evs uploaded)
       = [''data:image/jpeg;base64,SlBH'', ''data:image/png;base64,UE5H'']"
    using handleImageSelect_frame(3)[OF kb, of "final (handleUpscale envDown stitched)"] h2
    by (simp add: stitched_def[symmetric]) (simp add: stitched_eq)
  show ?thesis
    using reset_restores_original[OF resizeImage_env0 ne k, of "run ?evs uploaded" initialState
        "''data:image/jpeg;base64,SlBH''"] resizeImage_env0 k h
    by (simp add: uploaded_def)
qed

section \<open>The MIME type\<close>

lemma handleEmbroideryTransform_requests:
  "list_all (\<lambda>r. reqMimeType r = mimeType s) (requests s) \<Longrightarrow>
   list_all (\<lambda>r. reqMimeType r = mimeType s) (requests (final (handleEmbroideryTransform env s)))"
  by (simp add: handleEmbroideryTransform_def updateHistory_def embroideryRequest_def Let_def
        split: option.splits promise.splits)

lemma handleMagicEdit_requests:
  "list_all (\<lambda>r. reqMimeType r = mimeType s) (requests s) \<Longrightarrow>
   list_all (\<lambda>r. reqMimeType r = mimeType s) (requests (final (handleMagicEdit env s)))"
  by (simp add: handleMagicEdit_def updateHistory_def editRequest_def Let_def
        split: option.splits promise.splits)

lemma handleUpscale_requests:
  "list_all (\<lambda>r. reqMimeType r = mimeType s) (requests s) \<Longrightarrow>
   list_all (\<lambda>r. reqMimeType r = mimeType s) (requests (final (handleUpscale env s)))"
  by (simp add: handleUpscale_def updateHistory_def upscaleRequest_def Let_def
        split: option.splits promise.splits)

lemma step_jpegOnly: "jpegOnly s \<Longrightarrow> jpegOnly (step ev s)"
proof (cases ev)
  case (ImageSelect env f)
  assume "jpegOnly s"
  then show ?thesis
    using ImageSelect handleImageSelect_mime[of env f s]
    by (auto simp: jpegOnly_def handleImageSelect_requests)
next
  case (EmbroideryTransform env)
  assume "jpegOnly s"
  then show ?thesis
    using EmbroideryTransform handleEmbroideryTransform_requests[of s env]
    by (simp add: jpegOnly_def handleEmbroideryTransform_frame)
next
  case (MagicEdit env)
  assume "jpegOnly s"
  then show ?thesis
    using MagicEdit handleMagicEdit_requests[of s env]
    by (simp add: jpegOnly_def handleMagicEdit_frame)
next
  case (Upscale env)
  assume "jpegOnly s"
  then show ?thesis
    using Upscale handleUpscale_requests[of s env]
    by (simp add: jpegOnly_def handleUpscale_frame)
next
  case Undo
  assume "jpegOnly s"
  then show ?thesis using Undo by (simp add: jpegOnly_def handleUndo_frame)
next
  case Reset
  assume "jpegOnly s"
  then show ?thesis using Reset by (simp add: jpegOnly_def handleReset_frame)
next
  case (SetEditPrompt t)
  assume "jpegOnly s"
  then show ?thesis using SetEditPrompt by (simp add: jpegOnly_def)
next
  case DismissError
  assume "jpegOnly s"
  then show ?thesis using DismissError by (simp add: jpegOnly_def)
qed

lemma run_jpegOnly: "jpegOnly s \<Longrightarrow> jpegOnly (run evs s)"
  by (induction evs arbitrary: s) (simp_all add: step_jpegOnly)

text \<open>
  Claim C10. The style transformation, the text-guided edit, the upscale, undo and reset
  leave the stored MIME type as it is; an upload that succeeds stores the type
  \<^verbatim>\<open>resizeImage\<close> returns, which is \<^verbatim>\<open>image/jpeg\<close>. So in every state the session can
  reach the stored type is \<^verbatim>\<open>image/jpeg\<close>, and every request made to the model carried
  that type, whatever the current image was.
\<close>

theorem mimeType_fixed_at_upload:
  "mimeType (final (handleEmbroideryTransform env s)) = mimeType s
   \<and> mimeType (final (handleMagicEdit env s)) = mimeType s
   \<and> mimeType (final (handleUpscale env s)) = mimeType s
   \<and> mimeType (handleUndo s) = mimeType s
   \<and> mimeType (handleReset s) = mimeType s
   \<and> (resizeImage env f 1024 = Resolved (b, m) \<longrightarrow>
        m = ''image/jpeg'' \<and> mimeType (final (handleImageSelect env f s)) = m)
   \<and> mimeType (run evs initialState) = ''image/jpeg''
   \<and> (\<forall>r \<in> set (requests (run evs initialState)). reqMimeType r = ''image/jpeg'')"
proof -
  have "jpegOnly initialState" by (simp add: jpegOnly_def initialState_def)
  then have j: "jpegOnly (run evs initialState)" by (rule run_jpegOnly)
  have up: "resizeImage env f 1024 = Resolved (b, m) \<longrightarrow>
        m = ''image/jpeg'' \<and> mimeType (final (handleImageSelect env f s)) = m"
    using resizeImage_mime[of env f 1024 b m]
    by (auto simp: handleImageSelect_success)
  show ?thesis
    using j up
    by (simp add: jpegOnly_def list_all_iff handleEmbroideryTransform_frame handleMagicEdit_frame
        handleUpscale_frame handleUndo_frame handleReset_frame)
qed

text \<open>
  After the style transformation the current image is a PNG data URL; the upscale that
  follows sends its payload as \<^verbatim>\<open>image/jpeg\<close>.
\<close>

theorem mimeType_fixed_at_upload_witness:
  "currentImage (run [ImageSelect env0 file0, EmbroideryTransform env0] initialState)
     = Some ''data:image/png;base64,UE5H''
   \<and> mimeType (run [ImageSelect env0 file0, EmbroideryTransform env0] initialState)
     = ''image/jpeg''
   \<and> requests (run [ImageSelect env0 file0, EmbroideryTransform env0, Upscale env0] initialState)
     = [embroideryRequest (Some ''SlBH'') ''image/jpeg'',
        upscaleRequest (Some ''UE5H'') ''image/jpeg'']
   \<and> reqMimeType (upscaleRequest (Some ''UE5H'') ''image/jpeg'') = ''image/jpeg''"
proof -
  have st: "run [ImageSelect env0 file0, EmbroideryTransform env0] initialState = stitched"
    by (simp add: stitched_def uploaded_def)
  have cur: "currentImage stitched = Some ''data:image/png;base64,UE5H''"
    "''data:image/png;base64,UE5H'' \<noteq> []" "mimeType stitched = ''image/jpeg''"
    "requests stitched = [embroideryRequest (Some ''SlBH'') ''image/jpeg'']"
    by (simp_all add: stitched_eq)
  have rq: "requests (final (handleUpscale env0 stitched))
     = [embroideryRequest (Some ''SlBH'') ''image/jpeg'',
        upscaleRequest (Some ''UE5H'') ''image/jpeg'']"
    by (simp add: handleUpscale_def cur credentialGate_env0 base64Of_png upscaleImage_def
        callModel_env0 updateHistory_def Let_def)
  have r3: "run [ImageSelect env0 file0, EmbroideryTransform env0, Upscale env0] initialState
      = final (handleUpscale env0 stitched)"
    by (simp add: stitched_def uploaded_def)
  show ?thesis
    using mimeType_fixed_at_upload[of env0 stitched file0 "Some ''SlBH''" "''image/jpeg''"
        "[ImageSelect env0 file0, EmbroideryTransform env0, Upscale env0]"]
      mimeType_fixed_at_upload[of env0 stitched file0 "Some ''SlBH''" "''image/jpeg''"
        "[ImageSelect env0 file0, EmbroideryTransform env0]"]
    unfolding r3 rq st
    by (simp add: cur)
qed

end
